theory Spec2Isabelle
  imports Main
begin

section \<open>JavaScript values and errors\<close>

text \<open>
  The module \<^verbatim>\<open>nodes/Odoo/GenericFunctions.ts\<close> builds JSON-RPC envelopes and unwraps the
  decoded responses, so the values it handles are those of JSON plus \<^verbatim>\<open>undefined\<close>.
  An object is kept as the list of its own properties in the order in which
  \<^verbatim>\<open>Object.values\<close> and \<^verbatim>\<open>Object.keys\<close> list them: the array indices first, ascending, then
  the other names in the order of their creation. \<open>JBuiltin k\<close> stands for the member \<open>k\<close>
  that every plain object inherits from \<^verbatim>\<open>Object.prototype\<close> (a function, or the prototype
  itself for \<^verbatim>\<open>__proto__\<close>): it is what a lookup in an object literal used as a table
  yields for such a name. \<open>JNum n\<close> is the number \<open>n\<close>, an integer; the module does no
  arithmetic. A number of JavaScript is a double, which holds every integer up to 2^53
  and not every one beyond: \<open>JRounded n\<close> is the double that JavaScript has for the decimal
  numeral of an integer \<open>n\<close> above 2^53 (the nearest one, infinite for the largest \<open>n\<close>),
  which the model names and does not compute.
\<close>

datatype jsvalue =
    JUndefined
  | JNull
  | JBool bool
  | JNum int
  | JStr string
  | JArr "jsvalue list"
  | JObj "(string \<times> jsvalue) list"
  | JBuiltin string
  | JRounded int

type_synonym obj = "(string \<times> jsvalue) list"

text \<open>
  What can be thrown: a JavaScript value in the role of an error (\<open>JsError\<close>: whatever the
  injected HTTP capability rejects with, or the plain object handed to an error
  constructor), a \<^verbatim>\<open>TypeError\<close> of the runtime, and the host's \<^verbatim>\<open>NodeApiError\<close>, built as
  \<^verbatim>\<open>new NodeApiError(node, cause, {message})\<close>: it keeps its cause and the message option
  (\<open>None\<close> when no options are passed).
\<close>

datatype exn =
    JsError jsvalue
  | TypeError string
  | NodeApiError exn "jsvalue option"

text \<open>The truthiness test of \<^verbatim>\<open>if (v)\<close>, \<^verbatim>\<open>!v\<close> and \<^verbatim>\<open>v || w\<close>.\<close>

fun truthy :: "jsvalue \<Rightarrow> bool" where
  "truthy JUndefined = False"
| "truthy JNull = False"
| "truthy (JBool b) = b"
| "truthy (JNum n) = (n \<noteq> 0)"
| "truthy (JStr s) = (s \<noteq> [])"
| "truthy (JArr xs) = True"
| "truthy (JObj kvs) = True"
| "truthy (JBuiltin k) = True"
| "truthy (JRounded n) = True"

text \<open>The string-keyed members of \<^verbatim>\<open>Object.prototype\<close>, inherited by every object literal.\<close>

definition Object_prototype_keys :: "string list" where
  "Object_prototype_keys =
     [''constructor'', ''__defineGetter__'', ''__defineSetter__'', ''hasOwnProperty'',
      ''__lookupGetter__'', ''__lookupSetter__'', ''isPrototypeOf'', ''propertyIsEnumerable'',
      ''toString'', ''valueOf'', ''__proto__'', ''toLocaleString'']"

text \<open>
  \<^verbatim>\<open>o[k]\<close> on a plain object: the own property, else the inherited member, else
  \<^verbatim>\<open>undefined\<close>.
\<close>

definition obj_get :: "obj \<Rightarrow> string \<Rightarrow> jsvalue" where
  "obj_get kvs k =
     (case map_of kvs k of
        Some v \<Rightarrow> v
      | None \<Rightarrow> if k \<in> set Object_prototype_keys then JBuiltin k else JUndefined)"

text \<open>
  \<^verbatim>\<open>v.k\<close> for the names this module reads from a decoded response (\<^verbatim>\<open>error\<close>, \<^verbatim>\<open>data\<close>,
  \<^verbatim>\<open>message\<close>, \<^verbatim>\<open>result\<close>, \<^verbatim>\<open>methods\<close>): \<^verbatim>\<open>undefined\<close> and \<^verbatim>\<open>null\<close> have no properties and
  the read throws; arrays, strings, numbers and booleans have no member of these names.
\<close>

fun get_prop :: "jsvalue \<Rightarrow> string \<Rightarrow> exn + jsvalue" where
  "get_prop JUndefined k = Inl (TypeError ''Cannot read properties of undefined'')"
| "get_prop JNull k = Inl (TypeError ''Cannot read properties of null'')"
| "get_prop (JObj kvs) k = Inr (obj_get kvs k)"
| "get_prop v k = Inr JUndefined"

text \<open>
  Strings of digits. The pattern \<^verbatim>\<open>/^\d+$/\<close> holds of the non-empty strings of ASCII
  digits (\<^verbatim>\<open>$\<close> without the \<^verbatim>\<open>m\<close> flag is the end of the input), and \<open>parseInt\<close> is the
  decimal value of such a string, an integer of any size.
\<close>

definition is_digit :: "char \<Rightarrow> bool" where
  "is_digit c = (48 \<le> (of_char c :: nat) \<and> (of_char c :: nat) \<le> 57)"

definition matches_digits :: "string \<Rightarrow> bool" where
  "matches_digits s = (s \<noteq> [] \<and> list_all is_digit s)"

definition parseInt :: "string \<Rightarrow> int" where
  "parseInt s = foldl (\<lambda>n c. 10 * n + (int (of_char c) - 48)) 0 s"

text \<open>
  A property name is an array index when it is the decimal numeral, without a leading
  zero, of an integer up to 2^32 - 2. Among the properties of an object the array indices
  come first, in ascending order: \<open>goes_before k k'\<close> tells that a new property \<open>k\<close> takes
  its place before the property \<open>k'\<close>.
\<close>

definition is_array_index :: "string \<Rightarrow> bool" where
  "is_array_index k =
     (matches_digits k \<and> (case k of [] \<Rightarrow> False | c # cs \<Rightarrow> c \<noteq> CHR ''0'' \<or> cs = [])
      \<and> parseInt k \<le> 4294967294)"

definition goes_before :: "string \<Rightarrow> string \<Rightarrow> bool" where
  "goes_before k k' =
     (if is_array_index k then (if is_array_index k' then parseInt k < parseInt k' else True)
      else False)"

text \<open>
  \<^verbatim>\<open>o[k] = v\<close> on a plain object, for a name that is not \<^verbatim>\<open>__proto__\<close>: an own property
  keeps its place; a new one goes last when it is no array index, and among the array
  indices otherwise.
\<close>

fun set_prop :: "string \<Rightarrow> jsvalue \<Rightarrow> obj \<Rightarrow> obj" where
  "set_prop k v [] = [(k, v)]"
| "set_prop k v ((k', v') # kvs) =
     (if k = k' then (k, v) # kvs
      else if goes_before k k' \<and> k \<notin> set (map fst kvs) then (k, v) # (k', v') # kvs
      else (k', v') # set_prop k v kvs)"

section \<open>Translation tables\<close>

datatype OdooCRUD = Create | Update | Delete | Get | GetAll

fun mapOperationToJSONRPC :: "OdooCRUD \<Rightarrow> string" where
  "mapOperationToJSONRPC Create = ''create''"
| "mapOperationToJSONRPC Get = ''read''"
| "mapOperationToJSONRPC GetAll = ''search_read''"
| "mapOperationToJSONRPC Update = ''write''"
| "mapOperationToJSONRPC Delete = ''unlink''"

definition mapOdooResources :: obj where
  "mapOdooResources =
     [(''contact'', JStr ''res.partner''),
      (''opportunity'', JStr ''crm.lead''),
      (''note'', JStr ''note.note'')]"

definition mapFilterOperationToJSONRPC :: obj where
  "mapFilterOperationToJSONRPC =
     [(''equal'', JStr ''=''),
      (''notEqual'', JStr ''!=''),
      (''greaterThen'', JStr ''>''),
      (''lesserThen'', JStr ''<''),
      (''greaterOrEqual'', JStr ''>=''),
      (''lesserOrEqual'', JStr ''<=''),
      (''like'', JStr ''like''),
      (''ilike'', JStr ''ilike''),
      (''in'', JStr ''in''),
      (''notIn'', JStr ''not in''),
      (''childOf'', JStr ''child_of'')]"



text \<open>\<^verbatim>\<open>mapOdooResources[resource] || resource\<close>, the model identifier of a call.\<close>

definition resource_model :: "string \<Rightarrow> jsvalue" where
  "resource_model resource =
     (let m = obj_get mapOdooResources resource in if truthy m then m else JStr resource)"

section \<open>Database name\<close>

text \<open>
  \<^verbatim>\<open>s.split('.')\<close>: the pieces between the separators; the empty string gives one empty
  piece.
\<close>

fun split :: "char \<Rightarrow> string \<Rightarrow> string list" where
  "split c [] = [[]]"
| "split c (x # xs) =
     (if x = c then [] # split c xs
      else (case split c xs of w # ws \<Rightarrow> (x # w) # ws | [] \<Rightarrow> [[x]]))"

text \<open>
  \<^verbatim>\<open>new URL(url).hostname\<close> is the platform's URL parser, not code of this module: it is
  the parameter \<open>hostname\<close>, \<open>None\<close> where the constructor throws its \<^verbatim>\<open>TypeError\<close> and
  \<open>Some h\<close> where it gives the host name \<open>h\<close> (empty for a URL without one).
  \<open>databaseName\<close> is \<^verbatim>\<open>string | undefined\<close>.
\<close>

definition odooGetDBName :: "(string \<Rightarrow> string option) \<Rightarrow> string option \<Rightarrow> string \<Rightarrow> exn + string" where
  "odooGetDBName hostname databaseName url =
     (let from_url =
            (case hostname url of
               None \<Rightarrow> Inl (TypeError ''Invalid URL'')
             | Some h \<Rightarrow> if h = [] then Inr [] else Inr (hd (split CHR ''.'' h)))
      in (case databaseName of
            None \<Rightarrow> from_url
          | Some name \<Rightarrow> if name \<noteq> [] then Inr name else from_url))"

section \<open>Encoders\<close>

text \<open>
  \<^verbatim>\<open>IOdooFilterOperations\<close>: its property \<^verbatim>\<open>filter\<close>, the optional list of filter entries,
  each an object with the properties \<^verbatim>\<open>fieldName\<close>, \<^verbatim>\<open>operator\<close>, \<^verbatim>\<open>value\<close>.
\<close>

record IOdooFilterOperations =
  filter_entries :: "obj list option"

text \<open>
  The body of the \<^verbatim>\<open>map\<close> callback of \<^verbatim>\<open>processFilters\<close>: the entry's operator (a string by
  its type) is looked up in the table and the entry is assigned the outcome,
  \<^verbatim>\<open>item.operator = mapFilterOperationToJSONRPC[operator]\<close>. The entry is the caller's
  object, so the assignment is visible to the caller: the function gives back the
  entry as it is afterwards.
\<close>

definition translate_operator :: "obj \<Rightarrow> obj" where
  "translate_operator item =
     set_prop ''operator''
       (case obj_get item ''operator'' of
          JStr operator \<Rightarrow> obj_get mapFilterOperationToJSONRPC operator
        | _ \<Rightarrow> JUndefined)
       item"

text \<open>
  \<^verbatim>\<open>processFilters\<close> returns the encoded filters (\<^verbatim>\<open>undefined\<close> when \<^verbatim>\<open>value.filter\<close> is
  absent); the second component of the pair is its argument as it is after the call.
  \<^verbatim>\<open>Object.values(item)\<close> lists the values in the order of the properties.
\<close>

definition processFilters :: "IOdooFilterOperations \<Rightarrow> jsvalue \<times> IOdooFilterOperations" where
  "processFilters v =
     (case filter_entries v of
        None \<Rightarrow> (JUndefined, v)
      | Some items \<Rightarrow>
          (let items' = map translate_operator items
           in (JArr (map (\<lambda>item. JArr (map snd item)) items'),
               v\<lparr>filter_entries := Some items'\<rparr>)))"

text \<open>
  \<^verbatim>\<open>IOdooNameValueFields\<close>: its property \<^verbatim>\<open>fields\<close>, the optional list of
  \<^verbatim>\<open>{fieldName, fieldValue}\<close> entries, both strings.
\<close>

record name_value =
  fieldName :: string
  fieldValue :: string

record IOdooNameValueFields =
  nv_fields :: "name_value list option"

text \<open>
  One step of the reduction, \<^verbatim>\<open>Object.assign(acc, {[record.fieldName]: record.fieldValue})\<close>.
  \<^verbatim>\<open>Object.assign\<close> stores with an ordinary assignment, and an assignment to the name
  \<^verbatim>\<open>__proto__\<close> reaches the setter inherited from \<^verbatim>\<open>Object.prototype\<close>, which ignores a
  string: the accumulator gets no property of that name.
\<close>

definition assign_field :: "obj \<Rightarrow> name_value \<Rightarrow> obj" where
  "assign_field acc r =
     (if fieldName r = ''__proto__'' then acc
      else set_prop (fieldName r) (JStr (fieldValue r)) acc)"

text \<open>
  \<^verbatim>\<open>data?.fields?.reduce(..., {})\<close>: \<^verbatim>\<open>undefined\<close> when the argument or its \<^verbatim>\<open>fields\<close> is
  absent, else the accumulator, which starts as a fresh empty object.
\<close>

definition processNameValueFields :: "IOdooNameValueFields option \<Rightarrow> jsvalue" where
  "processNameValueFields v =
     (case v of
        None \<Rightarrow> JUndefined
      | Some d \<Rightarrow>
          (case nv_fields d of
             None \<Rightarrow> JUndefined
           | Some fs \<Rightarrow> JObj (foldl assign_field [] fs)))"




section \<open>The RPC transport\<close>

text \<open>
  \<^verbatim>\<open>OptionsWithUri\<close> as the module fills it, and the injected capability
  \<^verbatim>\<open>this.helpers.request\<close>: it either rejects or resolves to the decoded body. Every
  function that can reach it returns, beside its outcome, the list of the requests it
  handed to the capability, in order.
\<close>

record request =
  req_headers :: "(string \<times> string) list"
  req_method :: string
  req_body :: jsvalue
  req_uri :: string
  req_json :: bool

type_synonym transport = "request \<Rightarrow> exn + jsvalue"

text \<open>
  \<^verbatim>\<open>NodeApiError\<close> is a class of the host library \<^verbatim>\<open>n8n-workflow\<close>. Its constructor
  reads a property of the error it is handed (\<^verbatim>\<open>error.error\<close>), so that
  \<^verbatim>\<open>new NodeApiError(node, error, options)\<close> throws a \<^verbatim>\<open>TypeError\<close> of its own when \<open>error\<close>
  is \<^verbatim>\<open>undefined\<close> or \<^verbatim>\<open>null\<close>, and gives the new error otherwise.
\<close>

definition new_NodeApiError :: "exn \<Rightarrow> jsvalue option \<Rightarrow> exn + exn" where
  "new_NodeApiError error options =
     (case error of
        JsError JUndefined \<Rightarrow> Inl (TypeError ''Cannot read properties of undefined'')
      | JsError JNull \<Rightarrow> Inl (TypeError ''Cannot read properties of null'')
      | _ \<Rightarrow> Inr (NodeApiError error options))"

text \<open>\<^verbatim>\<open>throw new NodeApiError(node, error, options)\<close>: what is thrown is the new error, or the
  \<^verbatim>\<open>TypeError\<close> of the constructor.\<close>

definition throw_new_NodeApiError :: "exn \<Rightarrow> jsvalue option \<Rightarrow> exn + 'a" where
  "throw_new_NodeApiError error options =
     (case new_NodeApiError error options of Inl t \<Rightarrow> Inl t | Inr n \<Rightarrow> Inl n)"

text \<open>\<^verbatim>\<open>catch (error) { throw new NodeApiError(this.getNode(), error as JsonObject) }\<close>\<close>

definition rethrow :: "exn + 'a \<Rightarrow> exn + 'a" where
  "rethrow r = (case r of Inl e \<Rightarrow> throw_new_NodeApiError e None | Inr v \<Rightarrow> Inr v)"

text \<open>The \<^verbatim>\<open>options\<close> of \<^verbatim>\<open>odooJSONRPCRequest\<close>: a POST of \<open>body\<close> as JSON to \<^verbatim>\<open>${url}/jsonrpc\<close>.\<close>

definition rpc_options :: "jsvalue \<Rightarrow> string \<Rightarrow> request" where
  "rpc_options body url =
     \<lparr>req_headers =
        [(''User-Agent'', ''n8n''), (''Connection'', ''keep-alive''),
         (''Accept'', ''*/*''), (''Content-Type'', ''application/json'')],
      req_method = ''POST'', req_body = body, req_uri = url @ ''/jsonrpc'',
      req_json = True\<rparr>"

text \<open>
  \<^verbatim>\<open>odooJSONRPCRequest\<close>: one call of the capability; a truthy \<^verbatim>\<open>response.error\<close> throws
  \<^verbatim>\<open>new NodeApiError(node, response.error.data, {message: response.error.data.message})\<close>,
  and the \<^verbatim>\<open>catch\<close> around the whole body hands whatever was thrown, this error included,
  to the constructor again.
\<close>

definition odooJSONRPCRequest :: "transport \<Rightarrow> jsvalue \<Rightarrow> string \<Rightarrow> (exn + jsvalue) \<times> request list" where
  "odooJSONRPCRequest send body url =
     (let options = rpc_options body url
      in (rethrow
            (case send options of
               Inl e \<Rightarrow> Inl e
             | Inr response \<Rightarrow>
                 (case get_prop response ''error'' of
                    Inl e \<Rightarrow> Inl e
                  | Inr err \<Rightarrow>
                      if truthy err then
                        (case get_prop err ''data'' of
                           Inl e \<Rightarrow> Inl e
                         | Inr d \<Rightarrow>
                             (case get_prop d ''message'' of
                                Inl e \<Rightarrow> Inl e
                              | Inr m \<Rightarrow> throw_new_NodeApiError (JsError d) (Some m)))
                      else get_prop response ''result'')),
          [options]))"

section \<open>Operations\<close>

text \<open>
  The envelope every operation builds. \<open>rid\<close> is the value of
  \<^verbatim>\<open>Math.floor(Math.random() * 100)\<close>, taken as an argument.
\<close>

definition rpc_body :: "string \<Rightarrow> string \<Rightarrow> jsvalue list \<Rightarrow> int \<Rightarrow> jsvalue" where
  "rpc_body service method args rid =
     JObj [(''jsonrpc'', JStr ''2.0''),
           (''method'', JStr ''call''),
           (''params'', JObj [(''service'', JStr service), (''method'', JStr method),
                              (''args'', JArr args)]),
           (''id'', JNum rid)]"

definition serviceJSONRPC :: string where
  "serviceJSONRPC = ''object''"

definition methodJSONRPC :: string where
  "methodJSONRPC = ''execute''"

text \<open>
  The identifier check \<^verbatim>\<open>!/^\d+$/.test(itemsID) || !parseInt(itemsID, 10)\<close>. \<^verbatim>\<open>parseInt\<close>
  runs only on a string of digits, where its double is zero exactly when the decimal
  value is.
\<close>

definition invalid_id :: "string \<Rightarrow> bool" where
  "invalid_id itemsID = (\<not> matches_digits itemsID \<or> parseInt itemsID = 0)"

text \<open>
  The unary plus of \<^verbatim>\<open>[+itemsID]\<close>, which runs only on a string of digits that passed the
  check: the decimal value when a double holds it for sure, and the double nearest to it
  beyond.
\<close>

definition to_number :: "string \<Rightarrow> jsvalue" where
  "to_number itemsID =
     (if parseInt itemsID \<le> 9007199254740992 then JNum (parseInt itemsID)
      else JRounded (parseInt itemsID))"

definition invalid_id_error :: "string \<Rightarrow> exn" where
  "invalid_id_error itemsID =
     NodeApiError
       (JsError (JObj [(''status'', JStr ''Error''),
                       (''message'', JStr (''Please specify a valid ID: '' @ itemsID))]))
       None"

definition no_fields_error :: exn where
  "no_fields_error =
     NodeApiError
       (JsError (JObj [(''status'', JStr ''Error''),
                       (''message'', JStr ''Please specify at least one field to update'')]))
       None"

text \<open>
  \<open>userID\<close> is whatever the login call returned; \<open>newItem\<close> is the outcome of
  \<^verbatim>\<open>processNameValueFields\<close>, so it may be \<^verbatim>\<open>undefined\<close> (\<^verbatim>\<open>newItem || {}\<close>).
\<close>

definition odooCreate ::
  "transport \<Rightarrow> int \<Rightarrow> string \<Rightarrow> jsvalue \<Rightarrow> string \<Rightarrow> string \<Rightarrow> OdooCRUD \<Rightarrow> string \<Rightarrow> jsvalue
     \<Rightarrow> (exn + jsvalue) \<times> request list" where
  "odooCreate send rid db userID password resource operation url newItem =
     (let body = rpc_body serviceJSONRPC methodJSONRPC
                   [JStr db, userID, JStr password, resource_model resource,
                    JStr (mapOperationToJSONRPC operation),
                    (if truthy newItem then newItem else JObj [])] rid
      in (case odooJSONRPCRequest send body url of
            (Inl e, sent) \<Rightarrow> (rethrow (Inl e), sent)
          | (Inr result, sent) \<Rightarrow> (Inr (JObj [(''id'', result)]), sent)))"

text \<open>\<open>fieldsToReturn\<close> is optional (\<^verbatim>\<open>fieldsToReturn || []\<close>, and an array is truthy).\<close>

definition odooGet ::
  "transport \<Rightarrow> int \<Rightarrow> string \<Rightarrow> jsvalue \<Rightarrow> string \<Rightarrow> string \<Rightarrow> OdooCRUD \<Rightarrow> string \<Rightarrow> string
     \<Rightarrow> jsvalue list option \<Rightarrow> (exn + jsvalue) \<times> request list" where
  "odooGet send rid db userID password resource operation url itemsID fieldsToReturn =
     (if invalid_id itemsID then (rethrow (Inl (invalid_id_error itemsID)), [])
      else
        (let body = rpc_body serviceJSONRPC methodJSONRPC
                      [JStr db, userID, JStr password, resource_model resource,
                       JStr (mapOperationToJSONRPC operation),
                       JArr [to_number itemsID],
                       JArr (case fieldsToReturn of None \<Rightarrow> [] | Some fs \<Rightarrow> fs)] rid
         in (case odooJSONRPCRequest send body url of
               (Inl e, sent) \<Rightarrow> (rethrow (Inl e), sent)
             | (Inr result, sent) \<Rightarrow> (Inr result, sent))))"

text \<open>\<open>fieldsToUpdate\<close> is an object; \<^verbatim>\<open>Object.keys(fieldsToUpdate).length\<close> counts its properties.\<close>

definition odooUpdate ::
  "transport \<Rightarrow> int \<Rightarrow> string \<Rightarrow> jsvalue \<Rightarrow> string \<Rightarrow> string \<Rightarrow> OdooCRUD \<Rightarrow> string \<Rightarrow> string
     \<Rightarrow> obj \<Rightarrow> (exn + jsvalue) \<times> request list" where
  "odooUpdate send rid db userID password resource operation url itemsID fieldsToUpdate =
     (if length (map fst fieldsToUpdate) = 0 then (rethrow (Inl no_fields_error), [])
      else if invalid_id itemsID then (rethrow (Inl (invalid_id_error itemsID)), [])
      else
        (let body = rpc_body serviceJSONRPC methodJSONRPC
                      [JStr db, userID, JStr password, resource_model resource,
                       JStr (mapOperationToJSONRPC operation),
                       JArr [to_number itemsID],
                       JObj fieldsToUpdate] rid
         in (case odooJSONRPCRequest send body url of
               (Inl e, sent) \<Rightarrow> (rethrow (Inl e), sent)
             | (Inr result, sent) \<Rightarrow> (Inr (JObj [(''id'', JStr itemsID)]), sent))))"

text \<open>
  \<^verbatim>\<open>odooWorkflow\<close> writes the service and the method as literals and passes \<open>resource\<close>
  as it is.
\<close>

definition odooWorkflow ::
  "transport \<Rightarrow> int \<Rightarrow> string \<Rightarrow> jsvalue \<Rightarrow> string \<Rightarrow> string \<Rightarrow> string \<Rightarrow> string \<Rightarrow> string
     \<Rightarrow> (exn + jsvalue) \<times> request list" where
  "odooWorkflow send rid db userID password resource customOperation url itemsID =
     (if invalid_id itemsID then (rethrow (Inl (invalid_id_error itemsID)), [])
      else
        (let body = rpc_body ''object'' ''execute''
                      [JStr db, userID, JStr password, JStr resource, JStr customOperation,
                       JArr [to_number itemsID]] rid
         in (case odooJSONRPCRequest send body url of
               (Inl e, sent) \<Rightarrow> (rethrow (Inl e), sent)
             | (Inr result, sent) \<Rightarrow> (Inr result, sent))))"

text \<open>In \<^verbatim>\<open>odooDelete\<close> the identifier check stands before the \<^verbatim>\<open>try\<close>: its error is not wrapped again.\<close>

definition odooDelete ::
  "transport \<Rightarrow> int \<Rightarrow> string \<Rightarrow> jsvalue \<Rightarrow> string \<Rightarrow> string \<Rightarrow> OdooCRUD \<Rightarrow> string \<Rightarrow> string
     \<Rightarrow> (exn + jsvalue) \<times> request list" where
  "odooDelete send rid db userID password resource operation url itemsID =
     (if invalid_id itemsID then (Inl (invalid_id_error itemsID), [])
      else
        (let body = rpc_body serviceJSONRPC methodJSONRPC
                      [JStr db, userID, JStr password, resource_model resource,
                       JStr (mapOperationToJSONRPC operation),
                       JArr [to_number itemsID]] rid
         in (case odooJSONRPCRequest send body url of
               (Inl e, sent) \<Rightarrow> (rethrow (Inl e), sent)
             | (Inr result, sent) \<Rightarrow> (Inr (JObj [(''success'', JBool True)]), sent))))"

text \<open>The \<^verbatim>\<open>body\<close> of \<^verbatim>\<open>odooGetUserID\<close>: the login call of the service \<^verbatim>\<open>common\<close>.\<close>

definition login_body :: "string \<Rightarrow> string \<Rightarrow> string \<Rightarrow> int \<Rightarrow> jsvalue" where
  "login_body db username password rid =
     rpc_body ''common'' ''login'' [JStr db, JStr username, JStr password] rid"

text \<open>\<^verbatim>\<open>odooGetUserID\<close> returns \<^verbatim>\<open>loginResult\<close> as it came; the cast to a number checks nothing.\<close>

definition odooGetUserID ::
  "transport \<Rightarrow> int \<Rightarrow> string \<Rightarrow> string \<Rightarrow> string \<Rightarrow> string \<Rightarrow> (exn + jsvalue) \<times> request list" where
  "odooGetUserID send rid db username password url =
     (let body = login_body db username password rid
      in (case odooJSONRPCRequest send body url of
            (Inl e, sent) \<Rightarrow> (rethrow (Inl e), sent)
          | (Inr loginResult, sent) \<Rightarrow> (Inr loginResult, sent)))"

text \<open>
  \<^verbatim>\<open>odooGetAll\<close>: \<^verbatim>\<open>(filters && processFilters(filters)) || []\<close>, with \<open>offset\<close> and \<open>limit\<close>
  defaulting to 0. Only the encoded filters are used here; what \<^verbatim>\<open>processFilters\<close> does to
  \<open>filters\<close> is its second component above.
\<close>

definition odooGetAll ::
  "transport \<Rightarrow> int \<Rightarrow> string \<Rightarrow> jsvalue \<Rightarrow> string \<Rightarrow> string \<Rightarrow> OdooCRUD \<Rightarrow> string
     \<Rightarrow> IOdooFilterOperations option \<Rightarrow> jsvalue list option \<Rightarrow> int option \<Rightarrow> int option
     \<Rightarrow> (exn + jsvalue) \<times> request list" where
  "odooGetAll send rid db userID password resource operation url filters fieldsToReturn offset limit =
     (let encoded = (case filters of None \<Rightarrow> JUndefined | Some f \<Rightarrow> fst (processFilters f));
          body = rpc_body serviceJSONRPC methodJSONRPC
                   [JStr db, userID, JStr password, resource_model resource,
                    JStr (mapOperationToJSONRPC operation),
                    (if truthy encoded then encoded else JArr []),
                    JArr (case fieldsToReturn of None \<Rightarrow> [] | Some fs \<Rightarrow> fs),
                    JNum (case offset of None \<Rightarrow> 0 | Some n \<Rightarrow> n),
                    JNum (case limit of None \<Rightarrow> 0 | Some n \<Rightarrow> n)] rid
      in (case odooJSONRPCRequest send body url of
            (Inl e, sent) \<Rightarrow> (rethrow (Inl e), sent)
          | (Inr result, sent) \<Rightarrow> (Inr result, sent)))"

definition odooGetModelFields ::
  "transport \<Rightarrow> int \<Rightarrow> string \<Rightarrow> jsvalue \<Rightarrow> string \<Rightarrow> string \<Rightarrow> string
     \<Rightarrow> (exn + jsvalue) \<times> request list" where
  "odooGetModelFields send rid db userID password resource url =
     (let body = rpc_body serviceJSONRPC methodJSONRPC
                   [JStr db, userID, JStr password, resource_model resource,
                    JStr ''fields_get'', JArr [],
                    JArr [JStr ''string'', JStr ''type'', JStr ''help'', JStr ''required'',
                          JStr ''name'']] rid
      in (case odooJSONRPCRequest send body url of
            (Inl e, sent) \<Rightarrow> (rethrow (Inl e), sent)
          | (Inr result, sent) \<Rightarrow> (Inr result, sent)))"

section \<open>Probing the result of a model query\<close>

text \<open>
  \<^verbatim>\<open>result?.length\<close>: \<^verbatim>\<open>undefined\<close> for \<^verbatim>\<open>undefined\<close> and \<^verbatim>\<open>null\<close>, the number of elements of
  an array, the length of a string, the property of that name of an object. (The test
  below is false of every string whatever its length, its first character having no
  property \<^verbatim>\<open>methods\<close>.)
\<close>

fun js_length :: "jsvalue \<Rightarrow> jsvalue" where
  "js_length (JArr xs) = JNum (int (length xs))"
| "js_length (JStr s) = JNum (int (length s))"
| "js_length (JObj kvs) = obj_get kvs ''length''"
| "js_length v = JUndefined"

text \<open>\<^verbatim>\<open>result[0]\<close>.\<close>

fun index0 :: "jsvalue \<Rightarrow> exn + jsvalue" where
  "index0 JUndefined = Inl (TypeError ''Cannot read properties of undefined'')"
| "index0 JNull = Inl (TypeError ''Cannot read properties of null'')"
| "index0 (JArr xs) = Inr (case xs of [] \<Rightarrow> JUndefined | x # _ \<Rightarrow> x)"
| "index0 (JStr s) = Inr (case s of [] \<Rightarrow> JUndefined | c # _ \<Rightarrow> JStr [c])"
| "index0 (JObj kvs) = Inr (obj_get kvs ''0'')"
| "index0 v = Inr JUndefined"

text \<open>
  \<^verbatim>\<open>x.hasOwnProperty('methods')\<close>: the call throws on \<^verbatim>\<open>undefined\<close> and \<^verbatim>\<open>null\<close>, and on an
  object with a property of its own named \<^verbatim>\<open>hasOwnProperty\<close> (a decoded JSON value is
  never a function); otherwise it tells whether \<^verbatim>\<open>methods\<close> is an own property, which it
  never is of an array, a string, a number or a boolean.
\<close>

fun hasOwnProperty_methods :: "jsvalue \<Rightarrow> exn + bool" where
  "hasOwnProperty_methods JUndefined = Inl (TypeError ''Cannot read properties of undefined'')"
| "hasOwnProperty_methods JNull = Inl (TypeError ''Cannot read properties of null'')"
| "hasOwnProperty_methods (JObj kvs) =
     (case map_of kvs ''hasOwnProperty'' of
        Some f \<Rightarrow> Inl (TypeError ''hasOwnProperty is not a function'')
      | None \<Rightarrow> Inr (''methods'' \<in> set (map fst kvs)))"
| "hasOwnProperty_methods v = Inr False"

text \<open>
  The test \<^verbatim>\<open>result?.length === 1 && result[0].hasOwnProperty('methods')\<close> of
  \<^verbatim>\<open>odooIsAddonInstalled\<close> and \<^verbatim>\<open>odooGetActionMethods\<close>.
\<close>

definition single_with_methods :: "jsvalue \<Rightarrow> exn + bool" where
  "single_with_methods result =
     (if js_length result = JNum 1 then
        (case index0 result of Inl e \<Rightarrow> Inl e | Inr x \<Rightarrow> hasOwnProperty_methods x)
      else Inr False)"

text \<open>
  \<^verbatim>\<open>odooGetActionMethods\<close> passes \<open>resource\<close> as it is, inside the search domain.
  \<^verbatim>\<open>JSON.parse\<close> is the platform's; it is the parameter \<open>JSON_parse\<close>.
\<close>

definition odooGetActionMethods ::
  "(jsvalue \<Rightarrow> exn + jsvalue) \<Rightarrow> transport \<Rightarrow> int \<Rightarrow> string \<Rightarrow> jsvalue \<Rightarrow> string \<Rightarrow> string \<Rightarrow> string
     \<Rightarrow> (exn + jsvalue) \<times> request list" where
  "odooGetActionMethods JSON_parse send rid db userID password resource url =
     (let body = rpc_body serviceJSONRPC methodJSONRPC
                   [JStr db, userID, JStr password, JStr ''ir.model'', JStr ''search_read'',
                    JArr [JArr [JStr ''model'', JStr ''='', JStr resource]],
                    JArr [JStr ''methods'']] rid
      in (case odooJSONRPCRequest send body url of
            (Inl e, sent) \<Rightarrow> (rethrow (Inl e), sent)
          | (Inr result, sent) \<Rightarrow>
              (rethrow
                 (case single_with_methods result of
                    Inl e \<Rightarrow> Inl e
                  | Inr False \<Rightarrow> Inr JUndefined
                  | Inr True \<Rightarrow>
                      (case index0 result of
                         Inl e \<Rightarrow> Inl e
                       | Inr x \<Rightarrow>
                           (case get_prop x ''methods'' of
                              Inl e \<Rightarrow> Inl e
                            | Inr m \<Rightarrow> JSON_parse m))),
               sent)))"

section \<open>The addon probe\<close>

text \<open>
  \<^verbatim>\<open>this.getCredentials('odooApi')\<close> is injected: it rejects or resolves to the credentials
  object, whose fields the module reads as strings; \<^verbatim>\<open>db\<close> may be missing.
\<close>

record credentials =
  cred_url :: string
  cred_username :: string
  cred_password :: string
  cred_db :: "string option"

text \<open>
  The statements of the \<^verbatim>\<open>try\<close> block of \<^verbatim>\<open>odooIsAddonInstalled\<close> up to
  \<^verbatim>\<open>const result = await odooJSONRPCRequest.call(this, body, url)\<close>: the credentials, the
  database name, the login and the query on \<^verbatim>\<open>ir.model\<close>. \<open>rid_login\<close> and \<open>rid\<close> are the two
  random identifiers.
\<close>

definition addon_probe_query ::
  "(string \<Rightarrow> string option) \<Rightarrow> exn + credentials \<Rightarrow> transport \<Rightarrow> int \<Rightarrow> int
     \<Rightarrow> (exn + jsvalue) \<times> request list" where
  "addon_probe_query hostname getCredentials send rid_login rid =
     (case getCredentials of
        Inl e \<Rightarrow> (Inl e, [])
      | Inr c \<Rightarrow>
          (case odooGetDBName hostname (cred_db c) (cred_url c) of
             Inl e \<Rightarrow> (Inl e, [])
           | Inr db \<Rightarrow>
               (case odooGetUserID send rid_login db (cred_username c) (cred_password c) (cred_url c) of
                  (Inl e, sent) \<Rightarrow> (Inl e, sent)
                | (Inr userID, sent) \<Rightarrow>
                    (let body = rpc_body serviceJSONRPC methodJSONRPC
                                  [JStr db, userID, JStr (cred_password c), JStr ''ir.model'',
                                   JStr ''search_read'',
                                   JArr [JArr [JStr ''model'', JStr ''='', JStr ''base'']],
                                   JArr []] rid
                     in (case odooJSONRPCRequest send body (cred_url c) of
                           (r, sent') \<Rightarrow> (r, sent @ sent'))))))"

text \<open>
  \<^verbatim>\<open>odooIsAddonInstalled\<close>: the test on the result, and \<^verbatim>\<open>catch (error) { return false }\<close>
  around the whole block. The outcome is a sum like that of the other operations, so that
  "never throws" is a statement about it.
\<close>

definition odooIsAddonInstalled ::
  "(string \<Rightarrow> string option) \<Rightarrow> exn + credentials \<Rightarrow> transport \<Rightarrow> int \<Rightarrow> int
     \<Rightarrow> (exn + bool) \<times> request list" where
  "odooIsAddonInstalled hostname getCredentials send rid_login rid =
     (case addon_probe_query hostname getCredentials send rid_login rid of
        (Inl e, sent) \<Rightarrow> (Inr False, sent)
      | (Inr result, sent) \<Rightarrow>
          (case single_with_methods result of
             Inl e \<Rightarrow> (Inr False, sent)
           | Inr b \<Rightarrow> (Inr b, sent)))"

section \<open>What the specification documents\<close>



text \<open>
  The model-identifier position of a request: the fourth of the positional arguments,
  after the database, the user and the password.
\<close>

definition model_position :: "request \<Rightarrow> jsvalue" where
  "model_position q =
     (case req_body q of
        JObj kvs \<Rightarrow>
          (case obj_get kvs ''params'' of
             JObj ps \<Rightarrow>
               (case obj_get ps ''args'' of
                  JArr (d # u # p # m # rest) \<Rightarrow> m
                | _ \<Rightarrow> JUndefined)
           | _ \<Rightarrow> JUndefined)
      | _ \<Rightarrow> JUndefined)"

section \<open>The filter encoder\<close>





section \<open>The database name\<close>

lemma split_nonempty: "split c s \<noteq> []"
  by (induction s) (auto split: list.splits)

lemma hd_split: "hd (split c s) = takeWhile (\<lambda>x. x \<noteq> c) s"
  by (induction s) (auto split: list.splits simp: split_nonempty)

lemma takeWhile_label:
  "s = takeWhile (\<lambda>x. x \<noteq> c) s \<or> (\<exists>rest. s = takeWhile (\<lambda>x. x \<noteq> c) s @ c # rest)"
  by (induction s) auto

lemma label_no_dot: "c \<notin> set (takeWhile (\<lambda>x. x \<noteq> c) s)"
  by (induction s) auto

text \<open>
  Claim C6. \<^verbatim>\<open>odooGetDBName\<close> returns a non-empty explicit name whatever the URL is. With
  the name empty or absent and a URL that the parser gives the host name \<open>h\<close>, it returns
  the first label of \<open>h\<close>: the part before the first dot, or all of \<open>h\<close> when it has no dot;
  and the empty string when the host name is empty. When the parser reads the host name
  \<^verbatim>\<open>acme.example.com\<close> off \<^verbatim>\<open>https://acme.example.com\<close>, the outcome is \<^verbatim>\<open>acme\<close>.
\<close>

theorem odooGetDBName_resolves:
  "(name \<noteq> [] \<longrightarrow> odooGetDBName hostname (Some name) url = Inr name)
   \<and> ((dn = None \<or> dn = Some []) \<and> hostname url = Some h \<and> h \<noteq> [] \<longrightarrow>
        (\<exists>label. odooGetDBName hostname dn url = Inr label \<and> CHR ''.'' \<notin> set label
           \<and> (h = label \<or> (\<exists>rest. h = label @ CHR ''.'' # rest))))
   \<and> ((dn = None \<or> dn = Some []) \<and> hostname url = Some [] \<longrightarrow>
        odooGetDBName hostname dn url = Inr [])
   \<and> (hostname ''https://acme.example.com'' = Some ''acme.example.com'' \<longrightarrow>
        odooGetDBName hostname None ''https://acme.example.com'' = Inr ''acme'')"
proof -
  have a: "name \<noteq> [] \<longrightarrow> odooGetDBName hostname (Some name) url = Inr name"
    by (simp add: odooGetDBName_def)
  have b: "(dn = None \<or> dn = Some []) \<and> hostname url = Some h \<and> h \<noteq> [] \<longrightarrow>
        (\<exists>label. odooGetDBName hostname dn url = Inr label \<and> CHR ''.'' \<notin> set label
           \<and> (h = label \<or> (\<exists>rest. h = label @ CHR ''.'' # rest)))"
  proof
    assume H: "(dn = None \<or> dn = Some []) \<and> hostname url = Some h \<and> h \<noteq> []"
    then have "odooGetDBName hostname dn url = Inr (takeWhile (\<lambda>x. x \<noteq> CHR ''.'') h)"
      by (auto simp: odooGetDBName_def hd_split)
    then show "\<exists>label. odooGetDBName hostname dn url = Inr label \<and> CHR ''.'' \<notin> set label
           \<and> (h = label \<or> (\<exists>rest. h = label @ CHR ''.'' # rest))"
      using takeWhile_label[of h "CHR ''.''"] label_no_dot[of "CHR ''.''" h] by auto
  qed
  have c: "(dn = None \<or> dn = Some []) \<and> hostname url = Some [] \<longrightarrow>
        odooGetDBName hostname dn url = Inr []"
    by (auto simp: odooGetDBName_def)
  have d: "hostname ''https://acme.example.com'' = Some ''acme.example.com'' \<longrightarrow>
        odooGetDBName hostname None ''https://acme.example.com'' = Inr ''acme''"
    by (simp add: odooGetDBName_def)
  from a b c d show ?thesis by blast
qed

text \<open>
  The theorem at a parser that knows one URL: an explicit name beside a string that is no
  URL, and the host name of the example.
\<close>

theorem odooGetDBName_resolves_witness:
  "odooGetDBName (\<lambda>u. if u = ''https://acme.example.com'' then Some ''acme.example.com'' else None)
      (Some ''prod'') ''not a url'' = Inr ''prod''
   \<and> odooGetDBName (\<lambda>u. if u = ''https://acme.example.com'' then Some ''acme.example.com'' else None)
      None ''https://acme.example.com'' = Inr ''acme''"
  using odooGetDBName_resolves [of "''prod''"
      "\<lambda>u. if u = ''https://acme.example.com'' then Some ''acme.example.com'' else None"
      "''not a url''" None "''''"]
  by simp

section \<open>The RPC transport function\<close>

lemma throw_new_wraps:
  "e \<noteq> JsError JUndefined \<Longrightarrow> e \<noteq> JsError JNull \<Longrightarrow>
   throw_new_NodeApiError e options = Inl (NodeApiError e options)"
proof (cases e)
  case (JsError v)
  assume "e \<noteq> JsError JUndefined" and "e \<noteq> JsError JNull"
  with JsError show ?thesis
    by (cases v) (simp_all add: throw_new_NodeApiError_def new_NodeApiError_def)
next
  case (TypeError m)
  then show ?thesis by (simp add: throw_new_NodeApiError_def new_NodeApiError_def)
next
  case (NodeApiError c x)
  then show ?thesis by (simp add: throw_new_NodeApiError_def new_NodeApiError_def)
qed

lemma throw_new_raises:
  "(throw_new_NodeApiError e options :: exn + 'a) = Inl (NodeApiError e options)
   \<or> (\<exists>m. (throw_new_NodeApiError e options :: exn + 'a) = Inl (TypeError m))"
proof (cases e)
  case (JsError v)
  then show ?thesis
    by (cases v) (simp_all add: throw_new_NodeApiError_def new_NodeApiError_def)
next
  case (TypeError m)
  then show ?thesis by (simp add: throw_new_NodeApiError_def new_NodeApiError_def)
next
  case (NodeApiError c x)
  then show ?thesis by (simp add: throw_new_NodeApiError_def new_NodeApiError_def)
qed

lemma rethrow_wraps:
  "e \<noteq> JsError JUndefined \<Longrightarrow> e \<noteq> JsError JNull \<Longrightarrow> rethrow (Inl e) = Inl (NodeApiError e None)"
  by (simp add: rethrow_def throw_new_wraps)

lemma rethrow_returns: "rethrow (Inr v) = Inr v"
  by (simp add: rethrow_def)

lemma rethrow_raises:
  "rethrow r = Inl x \<Longrightarrow> (\<exists>cause. x = NodeApiError cause None) \<or> (\<exists>m. x = TypeError m)"
proof (cases r)
  case (Inl e)
  assume "rethrow r = Inl x"
  with Inl have "(throw_new_NodeApiError e None :: exn + 'a) = Inl x"
    by (simp add: rethrow_def)
  with throw_new_raises[of e None, where 'a = 'a] show ?thesis by auto
next
  case (Inr v)
  assume "rethrow r = Inl x"
  with Inr show ?thesis by (simp add: rethrow_def)
qed

lemma request_sent: "snd (odooJSONRPCRequest send body url) = [rpc_options body url]"
  by (simp add: odooJSONRPCRequest_def Let_def)

lemma request_outcome:
  "fst (odooJSONRPCRequest send body url) =
     rethrow
       (case send (rpc_options body url) of
          Inl e \<Rightarrow> Inl e
        | Inr response \<Rightarrow>
            (case get_prop response ''error'' of
               Inl e \<Rightarrow> Inl e
             | Inr err \<Rightarrow>
                 if truthy err then
                   (case get_prop err ''data'' of
                      Inl e \<Rightarrow> Inl e
                    | Inr d \<Rightarrow>
                        (case get_prop d ''message'' of
                           Inl e \<Rightarrow> Inl e
                         | Inr m \<Rightarrow> throw_new_NodeApiError (JsError d) (Some m)))
                 else get_prop response ''result''))"
  by (simp add: odooJSONRPCRequest_def Let_def)

lemma request_raises:
  "fst (odooJSONRPCRequest send body url) = Inl x \<Longrightarrow>
   (\<exists>cause. x = NodeApiError cause None) \<or> (\<exists>m. x = TypeError m)"
  unfolding request_outcome by (rule rethrow_raises)

lemma request_rejected:
  "send (rpc_options body url) = Inl e \<Longrightarrow> \<exists>x. fst (odooJSONRPCRequest send body url) = Inl x"
proof -
  assume "send (rpc_options body url) = Inl e"
  then have "fst (odooJSONRPCRequest send body url) = (throw_new_NodeApiError e None :: exn + jsvalue)"
    by (simp add: request_outcome rethrow_def)
  with throw_new_raises[of e None, where 'a = jsvalue] show ?thesis by auto
qed

lemma get_prop_after: "get_prop v k = Inr x \<Longrightarrow> \<exists>y. get_prop v k' = Inr y"
  by (cases v) auto

lemma get_prop_defined: "get_prop v k = Inr x \<Longrightarrow> v \<noteq> JUndefined \<and> v \<noteq> JNull"
  by (cases v) auto

lemma upstream_error_raised:
  "get_prop d ''message'' = Inr m \<Longrightarrow>
   rethrow (throw_new_NodeApiError (JsError d) (Some m) :: exn + 'a)
     = Inl (NodeApiError (NodeApiError (JsError d) (Some m)) None)"
proof -
  assume "get_prop d ''message'' = Inr m"
  then have "JsError d \<noteq> JsError JUndefined" and "JsError d \<noteq> JsError JNull"
    using get_prop_defined by auto
  then have "(throw_new_NodeApiError (JsError d) (Some m) :: exn + 'a)
               = Inl (NodeApiError (JsError d) (Some m))"
    by (rule throw_new_wraps)
  then show ?thesis by (simp add: rethrow_wraps)
qed

lemma request_cases:
  "snd (odooJSONRPCRequest send body url) = [rpc_options body url]
   \<and> (send (rpc_options body url) = Inl e \<and> e \<noteq> JsError JUndefined \<and> e \<noteq> JsError JNull \<longrightarrow>
        fst (odooJSONRPCRequest send body url) = Inl (NodeApiError e None))
   \<and> (send (rpc_options body url) = Inr response \<and> get_prop response ''error'' = Inr err
        \<and> truthy err \<and> get_prop err ''data'' = Inr d \<and> get_prop d ''message'' = Inr m \<longrightarrow>
        fst (odooJSONRPCRequest send body url)
          = Inl (NodeApiError (NodeApiError (JsError d) (Some m)) None))
   \<and> (send (rpc_options body url) = Inr response \<and> get_prop response ''error'' = Inr err
        \<and> \<not> truthy err \<longrightarrow>
        (\<exists>result. get_prop response ''result'' = Inr result
           \<and> fst (odooJSONRPCRequest send body url) = Inr result))
   \<and> (send (rpc_options body url) = Inr response \<and> get_prop response ''error'' = Inl t \<longrightarrow>
        fst (odooJSONRPCRequest send body url) = Inl (NodeApiError t None))
   \<and> (send (rpc_options body url) = Inr response \<and> get_prop response ''error'' = Inr err
        \<and> truthy err \<and> get_prop err ''data'' = Inr d \<and> get_prop d ''message'' = Inl t \<longrightarrow>
        fst (odooJSONRPCRequest send body url) = Inl (NodeApiError t None))
   \<and> (send (rpc_options body url) \<noteq> Inl (JsError JUndefined)
        \<and> send (rpc_options body url) \<noteq> Inl (JsError JNull)
        \<and> fst (odooJSONRPCRequest send body url) = Inl x \<longrightarrow>
        (\<exists>cause. x = NodeApiError cause None))"
proof -
  have tn: "\<And>v k t. get_prop v k = Inl t \<Longrightarrow> rethrow (Inl t :: exn + jsvalue) = Inl (NodeApiError t None)"
  proof -
    fix v k t
    assume "get_prop v k = Inl t"
    then have "\<exists>m. t = TypeError m" by (cases v) auto
    then show "rethrow (Inl t :: exn + jsvalue) = Inl (NodeApiError t None)"
      by (auto simp: rethrow_wraps)
  qed
  have a: "snd (odooJSONRPCRequest send body url) = [rpc_options body url]"
    by (rule request_sent)
  have b: "send (rpc_options body url) = Inl e \<and> e \<noteq> JsError JUndefined \<and> e \<noteq> JsError JNull \<longrightarrow>
        fst (odooJSONRPCRequest send body url) = Inl (NodeApiError e None)"
    by (simp add: request_outcome rethrow_wraps)
  have c: "send (rpc_options body url) = Inr response \<and> get_prop response ''error'' = Inr err
        \<and> truthy err \<and> get_prop err ''data'' = Inr d \<and> get_prop d ''message'' = Inr m \<longrightarrow>
        fst (odooJSONRPCRequest send body url)
          = Inl (NodeApiError (NodeApiError (JsError d) (Some m)) None)"
    by (simp add: request_outcome upstream_error_raised)
  have d: "send (rpc_options body url) = Inr response \<and> get_prop response ''error'' = Inr err
        \<and> \<not> truthy err \<longrightarrow>
        (\<exists>result. get_prop response ''result'' = Inr result
           \<and> fst (odooJSONRPCRequest send body url) = Inr result)"
  proof
    assume H: "send (rpc_options body url) = Inr response \<and> get_prop response ''error'' = Inr err
        \<and> \<not> truthy err"
    then obtain result where r: "get_prop response ''result'' = Inr result"
      using get_prop_after by blast
    with H have "fst (odooJSONRPCRequest send body url) = Inr result"
      by (simp add: request_outcome rethrow_returns)
    with r show "\<exists>result. get_prop response ''result'' = Inr result
           \<and> fst (odooJSONRPCRequest send body url) = Inr result" by blast
  qed
  have e: "send (rpc_options body url) = Inr response \<and> get_prop response ''error'' = Inl t \<longrightarrow>
        fst (odooJSONRPCRequest send body url) = Inl (NodeApiError t None)"
    using tn by (auto simp: request_outcome)
  have f: "send (rpc_options body url) = Inr response \<and> get_prop response ''error'' = Inr err
        \<and> truthy err \<and> get_prop err ''data'' = Inr d \<and> get_prop d ''message'' = Inl t \<longrightarrow>
        fst (odooJSONRPCRequest send body url) = Inl (NodeApiError t None)"
    using tn by (auto simp: request_outcome)
  have g: "send (rpc_options body url) \<noteq> Inl (JsError JUndefined)
        \<and> send (rpc_options body url) \<noteq> Inl (JsError JNull)
        \<and> fst (odooJSONRPCRequest send body url) = Inl x \<longrightarrow>
        (\<exists>cause. x = NodeApiError cause None)"
  proof
    assume H: "send (rpc_options body url) \<noteq> Inl (JsError JUndefined)
        \<and> send (rpc_options body url) \<noteq> Inl (JsError JNull)
        \<and> fst (odooJSONRPCRequest send body url) = Inl x"
    show "\<exists>cause. x = NodeApiError cause None"
    proof (cases "send (rpc_options body url)")
      case (Inl e0)
      with H have "e0 \<noteq> JsError JUndefined" and "e0 \<noteq> JsError JNull" by auto
      with Inl have "fst (odooJSONRPCRequest send body url) = Inl (NodeApiError e0 None)"
        by (simp add: request_outcome rethrow_wraps)
      with H show ?thesis by auto
    next
      case (Inr response)
      show ?thesis
      proof (cases "get_prop response ''error''")
        case (Inl t)
        with Inr have "fst (odooJSONRPCRequest send body url) = Inl (NodeApiError t None)"
          using tn by (auto simp: request_outcome)
        with H show ?thesis by auto
      next
        case err: (Inr err)
        show ?thesis
        proof (cases "truthy err")
          case False
          obtain result where "get_prop response ''result'' = Inr result"
            using err get_prop_after by blast
          with Inr err False have "fst (odooJSONRPCRequest send body url) = Inr result"
            by (simp add: request_outcome rethrow_returns)
          with H show ?thesis by auto
        next
          case True
          then obtain d where d: "get_prop err ''data'' = Inr d"
            by (cases err) auto
          show ?thesis
          proof (cases "get_prop d ''message''")
            case (Inl t)
            with Inr err True d have "fst (odooJSONRPCRequest send body url) = Inl (NodeApiError t None)"
              using tn by (auto simp: request_outcome)
            with H show ?thesis by auto
          next
            case m: (Inr m)
            with Inr err True d have "fst (odooJSONRPCRequest send body url)
                = Inl (NodeApiError (NodeApiError (JsError d) (Some m)) None)"
              by (simp add: request_outcome upstream_error_raised)
            with H show ?thesis by auto
          qed
        qed
      qed
    qed
  qed
  from a b c d e f g show ?thesis by blast
qed


text \<open>
  Claim C2, amended. \<^verbatim>\<open>odooJSONRPCRequest\<close> hands one request to the capability. When
  the decoded response has a truthy \<^verbatim>\<open>error\<close> whose data \<open>d\<close> is neither \<^verbatim>\<open>undefined\<close> nor
  \<^verbatim>\<open>null\<close>, so that its message \<open>m\<close> can be read, it raises the normalized error around
  the error made of \<open>d\<close> and \<open>m\<close>; when the response is neither \<^verbatim>\<open>undefined\<close> nor \<^verbatim>\<open>null\<close>
  and its \<^verbatim>\<open>error\<close> is not truthy, it returns the \<^verbatim>\<open>result\<close> of the response. A failure
  inside is surfaced as the normalized error around its cause: what the capability
  rejected with, when that is neither \<^verbatim>\<open>undefined\<close> nor \<^verbatim>\<open>null\<close>, or the \<^verbatim>\<open>TypeError\<close> of
  reading a property of a response that is \<^verbatim>\<open>undefined\<close> or \<^verbatim>\<open>null\<close> or of data that is.
  With a capability that rejects with neither of the two, every error raised is the
  normalized one.
\<close>

theorem odooJSONRPCRequest_outcomes:
  "(let q = \<lparr>req_headers =
                [(''User-Agent'', ''n8n''), (''Connection'', ''keep-alive''),
                 (''Accept'', ''*/*''), (''Content-Type'', ''application/json'')],
              req_method = ''POST'', req_body = body, req_uri = url @ ''/jsonrpc'',
              req_json = True\<rparr>
    in snd (odooJSONRPCRequest send body url) = [q]
       \<and> (send q = Inl e \<and> e \<noteq> JsError JUndefined \<and> e \<noteq> JsError JNull \<longrightarrow>
            fst (odooJSONRPCRequest send body url) = Inl (NodeApiError e None))
       \<and> (send q = Inr response \<and> get_prop response ''error'' = Inr err
            \<and> truthy err \<and> get_prop err ''data'' = Inr d \<and> get_prop d ''message'' = Inr m \<longrightarrow>
            fst (odooJSONRPCRequest send body url)
              = Inl (NodeApiError (NodeApiError (JsError d) (Some m)) None))
       \<and> (send q = Inr response \<and> get_prop response ''error'' = Inr err \<and> \<not> truthy err \<longrightarrow>
            (\<exists>result. get_prop response ''result'' = Inr result
               \<and> fst (odooJSONRPCRequest send body url) = Inr result))
       \<and> (send q = Inr response \<and> get_prop response ''error'' = Inl t \<longrightarrow>
            fst (odooJSONRPCRequest send body url) = Inl (NodeApiError t None))
       \<and> (send q = Inr response \<and> get_prop response ''error'' = Inr err
            \<and> truthy err \<and> get_prop err ''data'' = Inr d \<and> get_prop d ''message'' = Inl t \<longrightarrow>
            fst (odooJSONRPCRequest send body url) = Inl (NodeApiError t None))
       \<and> (send q \<noteq> Inl (JsError JUndefined) \<and> send q \<noteq> Inl (JsError JNull)
            \<and> fst (odooJSONRPCRequest send body url) = Inl x \<longrightarrow>
            (\<exists>cause. x = NodeApiError cause None)))"
  unfolding Let_def rpc_options_def [symmetric] by (rule request_cases)

text \<open>
  As first stated, the claim has every response with a truthy \<^verbatim>\<open>error\<close> raise an error
  that carries the data of that error and its message, and every other response return
  its \<^verbatim>\<open>result\<close>: an error without data raises the normalized error around a
  \<^verbatim>\<open>TypeError\<close>, and so does the response \<^verbatim>\<open>null\<close>, which has no truthy \<^verbatim>\<open>error\<close>.
\<close>

theorem error_without_data_raises_TypeError:
  "truthy (JObj [(''code'', JNum 1)])
   \<and> fst (odooJSONRPCRequest (\<lambda>q. Inr (JObj [(''error'', JObj [(''code'', JNum 1)])])) JNull
             ''https://acme.example.com'')
       = Inl (NodeApiError (TypeError ''Cannot read properties of undefined'') None)
   \<and> fst (odooJSONRPCRequest (\<lambda>q. Inr JNull) JNull ''https://acme.example.com'')
       = Inl (NodeApiError (TypeError ''Cannot read properties of null'') None)"
  by (simp add: request_outcome rethrow_wraps obj_get_def Object_prototype_keys_def)

text \<open>
  The amended claim at four transports: an upstream error with the message \<^verbatim>\<open>boom\<close>, a
  result, a refused connection, and an error without data.
\<close>

theorem odooJSONRPCRequest_outcomes_witness:
  "fst (odooJSONRPCRequest
          (\<lambda>q. Inr (JObj [(''error'', JObj [(''data'', JObj [(''message'', JStr ''boom'')])])]))
          JNull ''https://acme.example.com'')
     = Inl (NodeApiError
              (NodeApiError (JsError (JObj [(''message'', JStr ''boom'')])) (Some (JStr ''boom'')))
              None)
   \<and> fst (odooJSONRPCRequest (\<lambda>q. Inr (JObj [(''result'', JNum 7)])) JNull ''https://acme.example.com'')
     = Inr (JNum 7)
   \<and> fst (odooJSONRPCRequest (\<lambda>q. Inl (JsError (JObj [(''code'', JStr ''ECONNREFUSED'')]))) JNull
            ''https://acme.example.com'')
     = Inl (NodeApiError (JsError (JObj [(''code'', JStr ''ECONNREFUSED'')])) None)
   \<and> fst (odooJSONRPCRequest (\<lambda>q. Inr (JObj [(''error'', JObj [(''code'', JNum 1)])])) JNull ''https://acme.example.com'')
     = Inl (NodeApiError (TypeError ''Cannot read properties of undefined'') None)"
proof -
  have 1: "fst (odooJSONRPCRequest
          (\<lambda>q. Inr (JObj [(''error'', JObj [(''data'', JObj [(''message'', JStr ''boom'')])])]))
          JNull ''https://acme.example.com'')
     = Inl (NodeApiError
              (NodeApiError (JsError (JObj [(''message'', JStr ''boom'')])) (Some (JStr ''boom'')))
              None)"
    using odooJSONRPCRequest_outcomes
      [where send = "\<lambda>q. Inr (JObj [(''error'', JObj [(''data'', JObj [(''message'', JStr ''boom'')])])])"
         and body = JNull and url = "''https://acme.example.com''"
         and response = "JObj [(''error'', JObj [(''data'', JObj [(''message'', JStr ''boom'')])])]"
         and err = "JObj [(''data'', JObj [(''message'', JStr ''boom'')])]"
         and d = "JObj [(''message'', JStr ''boom'')]" and m = "JStr ''boom''"]
    by (simp add: Let_def obj_get_def)
  have 2: "fst (odooJSONRPCRequest (\<lambda>q. Inr (JObj [(''result'', JNum 7)])) JNull ''https://acme.example.com'')
     = Inr (JNum 7)"
    using odooJSONRPCRequest_outcomes
      [where send = "\<lambda>q. Inr (JObj [(''result'', JNum 7)])" and body = JNull
         and url = "''https://acme.example.com''" and response = "JObj [(''result'', JNum 7)]"
         and err = JUndefined]
    by (simp add: Let_def obj_get_def Object_prototype_keys_def)
  have 3: "fst (odooJSONRPCRequest (\<lambda>q. Inl (JsError (JObj [(''code'', JStr ''ECONNREFUSED'')]))) JNull
            ''https://acme.example.com'')
     = Inl (NodeApiError (JsError (JObj [(''code'', JStr ''ECONNREFUSED'')])) None)"
    using odooJSONRPCRequest_outcomes
      [where send = "\<lambda>q. Inl (JsError (JObj [(''code'', JStr ''ECONNREFUSED'')]))" and body = JNull
         and url = "''https://acme.example.com''"
         and e = "JsError (JObj [(''code'', JStr ''ECONNREFUSED'')])"]
    by (simp add: Let_def)
  have 4: "fst (odooJSONRPCRequest (\<lambda>q. Inr (JObj [(''error'', JObj [(''code'', JNum 1)])])) JNull ''https://acme.example.com'')
     = Inl (NodeApiError (TypeError ''Cannot read properties of undefined'') None)"
    using odooJSONRPCRequest_outcomes
      [where send = "\<lambda>q. Inr (JObj [(''error'', JObj [(''code'', JNum 1)])])" and body = JNull
         and url = "''https://acme.example.com''"
         and response = "JObj [(''error'', JObj [(''code'', JNum 1)])]"
         and err = "JObj [(''code'', JNum 1)]" and d = JUndefined
         and t = "TypeError ''Cannot read properties of undefined''"]
    by (simp add: Let_def obj_get_def Object_prototype_keys_def)
  from 1 2 3 4 show ?thesis by blast
qed

section \<open>The login\<close>

lemma rpc_case:
  "(case odooJSONRPCRequest send body url of
      (Inl e, sent) \<Rightarrow> (rethrow (Inl e), sent)
    | (Inr r, sent) \<Rightarrow> (Inr (g r), sent))
   = ((case fst (odooJSONRPCRequest send body url) of
         Inl e \<Rightarrow> Inl (NodeApiError e None)
       | Inr r \<Rightarrow> Inr (g r)),
      [rpc_options body url])"
proof (cases "odooJSONRPCRequest send body url")
  case (Pair r sent)
  then have s: "sent = [rpc_options body url]"
    using request_sent[of send body url] by simp
  show ?thesis
  proof (cases r)
    case (Inl e)
    with Pair have "fst (odooJSONRPCRequest send body url) = Inl e" by simp
    then have "(\<exists>cause. e = NodeApiError cause None) \<or> (\<exists>m. e = TypeError m)"
      by (rule request_raises)
    then have "rethrow (Inl e :: exn + 'a) = Inl (NodeApiError e None)"
      by (auto simp: rethrow_wraps)
    with Pair Inl s show ?thesis by simp
  next
    case (Inr v)
    with Pair s show ?thesis by simp
  qed
qed

lemma odooGetUserID_eq:
  "odooGetUserID send rid db username password url =
     ((case fst (odooJSONRPCRequest send (login_body db username password rid) url) of
         Inl e \<Rightarrow> Inl (NodeApiError e None)
       | Inr r \<Rightarrow> Inr r),
      [rpc_options (login_body db username password rid) url])"
  unfolding odooGetUserID_def Let_def by (rule rpc_case)

text \<open>
  Claim C10. \<^verbatim>\<open>odooGetUserID\<close> checks nothing about the login result. Whatever value
  \<^verbatim>\<open>odooJSONRPCRequest\<close> returns for the login body is returned as the user identifier,
  and \<^verbatim>\<open>odooGetUserID\<close> raises only when \<^verbatim>\<open>odooJSONRPCRequest\<close> raises, wrapping its error.
  Read at the injected capability: a response without a truthy \<^verbatim>\<open>error\<close> has its
  \<^verbatim>\<open>result\<close> returned as it is, and the result \<^verbatim>\<open>false\<close> of rejected credentials comes
  back as \<^verbatim>\<open>false\<close>, with no error.
\<close>

theorem odooGetUserID_verbatim:
  "(fst (odooJSONRPCRequest send (login_body db username password rid) url) = Inr v \<longrightarrow>
      fst (odooGetUserID send rid db username password url) = Inr v)
   \<and> (fst (odooGetUserID send rid db username password url) = Inl e \<longrightarrow>
        (\<exists>cause. fst (odooJSONRPCRequest send (login_body db username password rid) url) = Inl cause
           \<and> e = NodeApiError cause None))
   \<and> (send (rpc_options (login_body db username password rid) url) = Inr response
        \<and> get_prop response ''error'' = Inr err \<and> \<not> truthy err \<longrightarrow>
        (\<exists>result. get_prop response ''result'' = Inr result
           \<and> fst (odooGetUserID send rid db username password url) = Inr result))
   \<and> (send (rpc_options (login_body db username password rid) url)
          = Inr (JObj [(''result'', JBool False)]) \<longrightarrow>
        fst (odooGetUserID send rid db username password url) = Inr (JBool False))"
proof -
  have a: "fst (odooJSONRPCRequest send (login_body db username password rid) url) = Inr v \<longrightarrow>
      fst (odooGetUserID send rid db username password url) = Inr v"
    by (simp add: odooGetUserID_eq)
  have b: "fst (odooGetUserID send rid db username password url) = Inl e \<longrightarrow>
        (\<exists>cause. fst (odooJSONRPCRequest send (login_body db username password rid) url) = Inl cause
           \<and> e = NodeApiError cause None)"
    by (auto simp: odooGetUserID_eq split: sum.splits)
  have c: "send (rpc_options (login_body db username password rid) url) = Inr response
        \<and> get_prop response ''error'' = Inr err \<and> \<not> truthy err \<longrightarrow>
        (\<exists>result. get_prop response ''result'' = Inr result
           \<and> fst (odooGetUserID send rid db username password url) = Inr result)"
  proof
    assume H: "send (rpc_options (login_body db username password rid) url) = Inr response
        \<and> get_prop response ''error'' = Inr err \<and> \<not> truthy err"
    then obtain result where r: "get_prop response ''result'' = Inr result"
      using get_prop_after by blast
    with H have "fst (odooJSONRPCRequest send (login_body db username password rid) url) = Inr result"
      by (simp add: request_outcome rethrow_def)
    then have "fst (odooGetUserID send rid db username password url) = Inr result"
      by (simp add: odooGetUserID_eq)
    with r show "\<exists>result. get_prop response ''result'' = Inr result
           \<and> fst (odooGetUserID send rid db username password url) = Inr result" by blast
  qed
  have d: "send (rpc_options (login_body db username password rid) url)
          = Inr (JObj [(''result'', JBool False)]) \<longrightarrow>
        fst (odooGetUserID send rid db username password url) = Inr (JBool False)"
    by (simp add: odooGetUserID_eq request_outcome rethrow_def obj_get_def Object_prototype_keys_def)
  from a b c d show ?thesis by blast
qed

text \<open>The theorem at a server that answers \<^verbatim>\<open>false\<close>, and at one that answers a string.\<close>

theorem odooGetUserID_verbatim_witness:
  "fst (odooGetUserID (\<lambda>q. Inr (JObj [(''result'', JBool False)])) 42 ''acme'' ''admin'' ''wrong''
          ''https://acme.example.com'') = Inr (JBool False)
   \<and> fst (odooGetUserID (\<lambda>q. Inr (JObj [(''result'', JStr ''seven'')])) 42 ''acme'' ''admin'' ''secret''
          ''https://acme.example.com'') = Inr (JStr ''seven'')"
proof -
  have 1: "fst (odooGetUserID (\<lambda>q. Inr (JObj [(''result'', JBool False)])) 42 ''acme'' ''admin'' ''wrong''
          ''https://acme.example.com'') = Inr (JBool False)"
    using odooGetUserID_verbatim
      [of "\<lambda>q. Inr (JObj [(''result'', JBool False)])" "''acme''" "''admin''" "''wrong''" 42
          "''https://acme.example.com''"]
    by simp
  have 2: "fst (odooGetUserID (\<lambda>q. Inr (JObj [(''result'', JStr ''seven'')])) 42 ''acme'' ''admin'' ''secret''
          ''https://acme.example.com'') = Inr (JStr ''seven'')"
    using odooGetUserID_verbatim
      [of "\<lambda>q. Inr (JObj [(''result'', JStr ''seven'')])" "''acme''" "''admin''" "''secret''" 42
          "''https://acme.example.com''" _ _ "JObj [(''result'', JStr ''seven'')]" JUndefined]
    by (simp add: obj_get_def Object_prototype_keys_def)
  from 1 2 show ?thesis by blast
qed

section \<open>Update\<close>

lemma rethrow_no_fields: "rethrow (Inl no_fields_error) = Inl (NodeApiError no_fields_error None)"
  by (simp add: rethrow_wraps no_fields_error_def)

lemma rethrow_invalid_id:
  "rethrow (Inl (invalid_id_error itemsID)) = Inl (NodeApiError (invalid_id_error itemsID) None)"
  by (simp add: rethrow_wraps invalid_id_error_def)

lemma odooUpdate_eq:
  "fieldsToUpdate \<noteq> [] \<Longrightarrow> \<not> invalid_id itemsID \<Longrightarrow>
   odooUpdate send rid db userID password resource operation url itemsID fieldsToUpdate =
     ((case fst (odooJSONRPCRequest send
                   (rpc_body serviceJSONRPC methodJSONRPC
                      [JStr db, userID, JStr password, resource_model resource,
                       JStr (mapOperationToJSONRPC operation),
                       JArr [to_number itemsID], JObj fieldsToUpdate] rid) url) of
         Inl e \<Rightarrow> Inl (NodeApiError e None)
       | Inr r \<Rightarrow> Inr (JObj [(''id'', JStr itemsID)])),
      [rpc_options
         (rpc_body serviceJSONRPC methodJSONRPC
            [JStr db, userID, JStr password, resource_model resource,
             JStr (mapOperationToJSONRPC operation),
             JArr [to_number itemsID], JObj fieldsToUpdate] rid) url])"
  unfolding odooUpdate_def Let_def by (simp add: rpc_case)





section \<open>The identifier check\<close>

lemma odooGet_eq:
  "\<not> invalid_id itemsID \<Longrightarrow>
   snd (odooGet send rid db userID password resource operation url itemsID fieldsToReturn) =
      [rpc_options
         (rpc_body serviceJSONRPC methodJSONRPC
            [JStr db, userID, JStr password, resource_model resource,
             JStr (mapOperationToJSONRPC operation), JArr [to_number itemsID],
             JArr (case fieldsToReturn of None \<Rightarrow> [] | Some fs \<Rightarrow> fs)] rid) url]"
  unfolding odooGet_def Let_def by (simp add: rpc_case)

lemma odooDelete_eq:
  "\<not> invalid_id itemsID \<Longrightarrow>
   snd (odooDelete send rid db userID password resource operation url itemsID) =
      [rpc_options
         (rpc_body serviceJSONRPC methodJSONRPC
            [JStr db, userID, JStr password, resource_model resource,
             JStr (mapOperationToJSONRPC operation), JArr [to_number itemsID]] rid) url]"
  unfolding odooDelete_def Let_def by (simp add: rpc_case)

lemma odooWorkflow_eq:
  "\<not> invalid_id itemsID \<Longrightarrow>
   snd (odooWorkflow send rid db userID password resource customOperation url itemsID) =
      [rpc_options
         (rpc_body ''object'' ''execute''
            [JStr db, userID, JStr password, JStr resource, JStr customOperation,
             JArr [to_number itemsID]] rid) url]"
  unfolding odooWorkflow_def Let_def by (simp add: rpc_case)

text \<open>
  Claim C1, amended. An identifier that is not a non-empty string of ASCII digits, or
  that parses to zero, makes \<^verbatim>\<open>odooGet\<close>, \<^verbatim>\<open>odooUpdate\<close>, \<^verbatim>\<open>odooDelete\<close> and \<^verbatim>\<open>odooWorkflow\<close>
  raise a validation error with no request handed to the capability. An identifier that
  passes the check makes \<^verbatim>\<open>odooGet\<close>, \<^verbatim>\<open>odooDelete\<close> and \<^verbatim>\<open>odooWorkflow\<close> send exactly one
  request, and \<^verbatim>\<open>odooUpdate\<close> too when its fields map is not empty.
\<close>

theorem id_validation:
  "((\<not> matches_digits itemsID \<or> parseInt itemsID = 0) \<longrightarrow>
      odooGet send rid db userID password resource operation url itemsID fieldsToReturn
        = (Inl (NodeApiError (invalid_id_error itemsID) None), [])
      \<and> odooDelete send rid db userID password resource operation url itemsID
        = (Inl (invalid_id_error itemsID), [])
      \<and> odooWorkflow send rid db userID password resource customOperation url itemsID
        = (Inl (NodeApiError (invalid_id_error itemsID) None), [])
      \<and> odooUpdate send rid db userID password resource operation url itemsID fieldsToUpdate
        = (Inl (NodeApiError
                  (if fieldsToUpdate = [] then no_fields_error else invalid_id_error itemsID) None),
           []))
   \<and> (matches_digits itemsID \<and> parseInt itemsID \<noteq> 0 \<longrightarrow>
        length (snd (odooGet send rid db userID password resource operation url itemsID
                       fieldsToReturn)) = 1
        \<and> length (snd (odooDelete send rid db userID password resource operation url itemsID)) = 1
        \<and> length (snd (odooWorkflow send rid db userID password resource customOperation url
                          itemsID)) = 1
        \<and> (fieldsToUpdate \<noteq> [] \<longrightarrow>
             length (snd (odooUpdate send rid db userID password resource operation url itemsID
                            fieldsToUpdate)) = 1))"
proof -
  have a: "(\<not> matches_digits itemsID \<or> parseInt itemsID = 0) \<longrightarrow>
      odooGet send rid db userID password resource operation url itemsID fieldsToReturn
        = (Inl (NodeApiError (invalid_id_error itemsID) None), [])
      \<and> odooDelete send rid db userID password resource operation url itemsID
        = (Inl (invalid_id_error itemsID), [])
      \<and> odooWorkflow send rid db userID password resource customOperation url itemsID
        = (Inl (NodeApiError (invalid_id_error itemsID) None), [])
      \<and> odooUpdate send rid db userID password resource operation url itemsID fieldsToUpdate
        = (Inl (NodeApiError
                  (if fieldsToUpdate = [] then no_fields_error else invalid_id_error itemsID) None),
           [])"
    by (simp add: odooGet_def odooDelete_def odooWorkflow_def odooUpdate_def invalid_id_def
          rethrow_no_fields rethrow_invalid_id)
  have b: "matches_digits itemsID \<and> parseInt itemsID \<noteq> 0 \<longrightarrow>
        length (snd (odooGet send rid db userID password resource operation url itemsID
                       fieldsToReturn)) = 1
        \<and> length (snd (odooDelete send rid db userID password resource operation url itemsID)) = 1
        \<and> length (snd (odooWorkflow send rid db userID password resource customOperation url
                          itemsID)) = 1
        \<and> (fieldsToUpdate \<noteq> [] \<longrightarrow>
             length (snd (odooUpdate send rid db userID password resource operation url itemsID
                            fieldsToUpdate)) = 1)"
    by (simp add: odooGet_eq odooDelete_eq odooWorkflow_eq odooUpdate_eq invalid_id_def)
  from a b show ?thesis by blast
qed

text \<open>
  As first stated, the claim has every identifier that passes the check lead to exactly
  one remote call, in \<^verbatim>\<open>odooUpdate\<close> as well: with an empty fields map the identifier
  \<^verbatim>\<open>5\<close> passes and no request is sent.
\<close>

theorem update_valid_id_no_call:
  "matches_digits ''5'' \<and> parseInt ''5'' \<noteq> 0
   \<and> snd (odooUpdate (\<lambda>q. Inr (JObj [(''result'', JBool True)])) 7 ''acme'' (JNum 2) ''secret''
            ''contact'' Update ''https://acme.example.com'' ''5'' []) = []"
  by (simp add: odooUpdate_def matches_digits_def is_digit_def parseInt_def)

text \<open>
  The amended claim at the identifiers \<^verbatim>\<open>12.5\<close>, \<^verbatim>\<open>0\<close>, the empty string and \<^verbatim>\<open>abc\<close>, which
  are refused, and at \<^verbatim>\<open>42\<close>, which is sent.
\<close>

theorem id_validation_witness:
  "snd (odooGet (\<lambda>q. Inr (JObj [(''result'', JArr [])])) 7 ''acme'' (JNum 2) ''secret'' ''contact'' Get
          ''https://acme.example.com'' ''12.5'' None) = []
   \<and> snd (odooDelete (\<lambda>q. Inr (JObj [(''result'', JArr [])])) 7 ''acme'' (JNum 2) ''secret'' ''contact''
            Delete ''https://acme.example.com'' ''0'' ) = []
   \<and> snd (odooWorkflow (\<lambda>q. Inr (JObj [(''result'', JArr [])])) 7 ''acme'' (JNum 2) ''secret''
            ''sale.order'' ''action_confirm'' ''https://acme.example.com'' []) = []
   \<and> snd (odooUpdate (\<lambda>q. Inr (JObj [(''result'', JArr [])])) 7 ''acme'' (JNum 2) ''secret'' ''contact''
            Update ''https://acme.example.com'' ''abc'' [(''name'', JStr ''Ada'')]) = []
   \<and> length (snd (odooGet (\<lambda>q. Inr (JObj [(''result'', JArr [])])) 7 ''acme'' (JNum 2) ''secret''
                    ''contact'' Get ''https://acme.example.com'' ''42'' None)) = 1
   \<and> length (snd (odooUpdate (\<lambda>q. Inr (JObj [(''result'', JArr [])])) 7 ''acme'' (JNum 2) ''secret''
                    ''contact'' Update ''https://acme.example.com'' ''42'' [(''name'', JStr ''Ada'')])) = 1"
proof -
  have i1: "\<not> matches_digits ''12.5''" by (simp add: matches_digits_def is_digit_def)
  have i2: "parseInt ''0'' = 0" by (simp add: parseInt_def)
  have i3: "\<not> matches_digits []" by (simp add: matches_digits_def)
  have i4: "\<not> matches_digits ''abc''" by (simp add: matches_digits_def is_digit_def)
  have v: "matches_digits ''42'' \<and> parseInt ''42'' \<noteq> 0"
    by (simp add: matches_digits_def is_digit_def parseInt_def)
  show ?thesis
    using id_validation
      [of "''12.5''" "\<lambda>q. Inr (JObj [(''result'', JArr [])])" 7 "''acme''" "JNum 2" "''secret''"
          "''contact''" Get "''https://acme.example.com''" None]
      id_validation
      [of "''0''" "\<lambda>q. Inr (JObj [(''result'', JArr [])])" 7 "''acme''" "JNum 2" "''secret''"
          "''contact''" Delete "''https://acme.example.com''"]
      id_validation
      [of "[]" "\<lambda>q. Inr (JObj [(''result'', JArr [])])" 7 "''acme''" "JNum 2" "''secret''"
          "''sale.order''" _ "''https://acme.example.com''" _ "''action_confirm''"]
      id_validation
      [of "''abc''" "\<lambda>q. Inr (JObj [(''result'', JArr [])])" 7 "''acme''" "JNum 2" "''secret''"
          "''contact''" Update "''https://acme.example.com''" _ _ "[(''name'', JStr ''Ada'')]"]
      id_validation
      [of "''42''" "\<lambda>q. Inr (JObj [(''result'', JArr [])])" 7 "''acme''" "JNum 2" "''secret''"
          "''contact''" Get "''https://acme.example.com''" None _ "[(''name'', JStr ''Ada'')]"]
      id_validation
      [of "''42''" "\<lambda>q. Inr (JObj [(''result'', JArr [])])" 7 "''acme''" "JNum 2" "''secret''"
          "''contact''" Update "''https://acme.example.com''" None _ "[(''name'', JStr ''Ada'')]"]
      i1 i2 i3 i4 v
    by simp
qed

section \<open>Resource aliases\<close>

lemma model_position_rpc:
  "model_position (rpc_options (rpc_body service method (d # u # p # m # rest) rid) url) = m"
  by (simp add: model_position_def rpc_options_def rpc_body_def obj_get_def)

lemma odooCreate_sent:
  "snd (odooCreate send rid db userID password resource operation url newItem) =
      [rpc_options
         (rpc_body serviceJSONRPC methodJSONRPC
            [JStr db, userID, JStr password, resource_model resource,
             JStr (mapOperationToJSONRPC operation),
             (if truthy newItem then newItem else JObj [])] rid) url]"
  unfolding odooCreate_def Let_def by (simp add: rpc_case)

lemma odooGetAll_sent:
  "map model_position
     (snd (odooGetAll send rid db userID password resource operation url filters fieldsToReturn
             offset limit)) = [resource_model resource]"
  unfolding odooGetAll_def Let_def by (simp add: rpc_case model_position_rpc)

lemma odooGetModelFields_sent:
  "map model_position (snd (odooGetModelFields send rid db userID password resource url))
     = [resource_model resource]"
  unfolding odooGetModelFields_def Let_def by (simp add: rpc_case model_position_rpc)

lemma odooGetActionMethods_sent:
  "snd (odooGetActionMethods JSON_parse send rid db userID password resource url) =
     [rpc_options
        (rpc_body ''object'' ''execute''
           [JStr db, userID, JStr password, JStr ''ir.model'', JStr ''search_read'',
            JArr [JArr [JStr ''model'', JStr ''='', JStr resource]],
            JArr [JStr ''methods'']] rid) url]"
proof -
  let ?body = "rpc_body ''object'' ''execute''
           [JStr db, userID, JStr password, JStr ''ir.model'', JStr ''search_read'',
            JArr [JArr [JStr ''model'', JStr ''='', JStr resource]],
            JArr [JStr ''methods'']] rid"
  obtain r sent where rs: "odooJSONRPCRequest send ?body url = (r, sent)"
    by (cases "odooJSONRPCRequest send ?body url")
  then have "sent = [rpc_options ?body url]"
    using request_sent[of send ?body url] by simp
  with rs show ?thesis
    by (cases r) (simp_all add: odooGetActionMethods_def serviceJSONRPC_def methodJSONRPC_def)
qed

lemma resource_model_unlisted:
  "resource \<notin> set (map fst mapOdooResources) \<Longrightarrow> resource \<notin> set Object_prototype_keys
   \<Longrightarrow> resource_model resource = JStr resource"
proof -
  assume a: "resource \<notin> set (map fst mapOdooResources)" and b: "resource \<notin> set Object_prototype_keys"
  from a have "map_of mapOdooResources resource = None"
    by (simp add: map_of_eq_None_iff)
  with b show ?thesis
    by (simp add: resource_model_def obj_get_def)
qed

lemma resource_model_inherited: "resource_model ''toString'' = JBuiltin ''toString''"
  by (simp add: resource_model_def obj_get_def mapOdooResources_def Object_prototype_keys_def)

text \<open>
  Claim C5, amended. \<^verbatim>\<open>odooCreate\<close>, \<^verbatim>\<open>odooGet\<close>, \<^verbatim>\<open>odooGetAll\<close>, \<^verbatim>\<open>odooUpdate\<close>, \<^verbatim>\<open>odooDelete\<close>
  and \<^verbatim>\<open>odooGetModelFields\<close> put \<^verbatim>\<open>mapOdooResources[resource] || resource\<close> in the
  model-identifier position of their request: the table's entry for \<^verbatim>\<open>contact\<close>,
  \<^verbatim>\<open>opportunity\<close> and \<^verbatim>\<open>note\<close>, and the alias itself for an alias that is neither in the
  table nor the name of a member inherited from \<^verbatim>\<open>Object.prototype\<close>; \<^verbatim>\<open>custom.model\<close> is
  such an alias. \<^verbatim>\<open>odooWorkflow\<close> and \<^verbatim>\<open>odooGetActionMethods\<close> do not consult the table:
  the first puts the resource string itself in the model-identifier position, the second
  in its search domain.
\<close>

theorem resource_resolution:
  "map model_position (snd (odooCreate send rid db userID password resource operation url newItem))
     = [resource_model resource]
   \<and> map model_position
        (snd (odooGetAll send rid db userID password resource operation url filters fieldsToReturn
                offset limit)) = [resource_model resource]
   \<and> map model_position (snd (odooGetModelFields send rid db userID password resource url))
        = [resource_model resource]
   \<and> (\<not> invalid_id itemsID \<longrightarrow>
        map model_position
          (snd (odooGet send rid db userID password resource operation url itemsID fieldsToReturn))
          = [resource_model resource]
        \<and> map model_position
            (snd (odooDelete send rid db userID password resource operation url itemsID))
          = [resource_model resource]
        \<and> (fieldsToUpdate \<noteq> [] \<longrightarrow>
             map model_position
               (snd (odooUpdate send rid db userID password resource operation url itemsID
                       fieldsToUpdate))
               = [resource_model resource])
        \<and> map model_position
            (snd (odooWorkflow send rid db userID password resource customOperation url itemsID))
          = [JStr resource])
   \<and> snd (odooGetActionMethods JSON_parse send rid db userID password resource url)
        = [rpc_options
             (rpc_body ''object'' ''execute''
                [JStr db, userID, JStr password, JStr ''ir.model'', JStr ''search_read'',
                 JArr [JArr [JStr ''model'', JStr ''='', JStr resource]],
                 JArr [JStr ''methods'']] rid) url]
   \<and> resource_model ''contact'' = JStr ''res.partner''
   \<and> resource_model ''opportunity'' = JStr ''crm.lead''
   \<and> resource_model ''note'' = JStr ''note.note''
   \<and> resource_model ''custom.model'' = JStr ''custom.model''
   \<and> (resource \<notin> set (map fst mapOdooResources) \<and> resource \<notin> set Object_prototype_keys \<longrightarrow>
        resource_model resource = JStr resource)"
proof -
  have a: "map model_position (snd (odooCreate send rid db userID password resource operation url newItem))
     = [resource_model resource]"
    by (simp add: odooCreate_sent model_position_rpc)
  have b: "\<not> invalid_id itemsID \<longrightarrow>
        map model_position
          (snd (odooGet send rid db userID password resource operation url itemsID fieldsToReturn))
          = [resource_model resource]
        \<and> map model_position
            (snd (odooDelete send rid db userID password resource operation url itemsID))
          = [resource_model resource]
        \<and> (fieldsToUpdate \<noteq> [] \<longrightarrow>
             map model_position
               (snd (odooUpdate send rid db userID password resource operation url itemsID
                       fieldsToUpdate))
               = [resource_model resource])
        \<and> map model_position
            (snd (odooWorkflow send rid db userID password resource customOperation url itemsID))
          = [JStr resource]"
    by (simp add: odooGet_eq odooDelete_eq odooUpdate_eq odooWorkflow_eq model_position_rpc)
  have c: "resource_model ''contact'' = JStr ''res.partner''
   \<and> resource_model ''opportunity'' = JStr ''crm.lead''
   \<and> resource_model ''note'' = JStr ''note.note''
   \<and> resource_model ''custom.model'' = JStr ''custom.model''"
    by (simp add: resource_model_def obj_get_def mapOdooResources_def Object_prototype_keys_def)
  have d: "resource \<notin> set (map fst mapOdooResources) \<and> resource \<notin> set Object_prototype_keys \<longrightarrow>
        resource_model resource = JStr resource"
    using resource_model_unlisted by blast
  have g1: "map model_position
        (snd (odooGetAll send rid db userID password resource operation url filters fieldsToReturn
                offset limit)) = [resource_model resource]"
    by (rule odooGetAll_sent)
  have g2: "map model_position (snd (odooGetModelFields send rid db userID password resource url))
        = [resource_model resource]"
    by (rule odooGetModelFields_sent)
  have g3: "snd (odooGetActionMethods JSON_parse send rid db userID password resource url)
        = [rpc_options
             (rpc_body ''object'' ''execute''
                [JStr db, userID, JStr password, JStr ''ir.model'', JStr ''search_read'',
                 JArr [JArr [JStr ''model'', JStr ''='', JStr resource]],
                 JArr [JStr ''methods'']] rid) url]"
    by (rule odooGetActionMethods_sent)
  from a g1 g2 b g3 c d show ?thesis by blast
qed

text \<open>
  As first stated, the claim has every operation with a resource argument resolve the
  alias through the table: \<^verbatim>\<open>odooWorkflow\<close> sends the alias \<^verbatim>\<open>contact\<close>, which the table
  maps to \<^verbatim>\<open>res.partner\<close>, as it is.
\<close>

theorem workflow_alias_not_resolved:
  "map model_position
     (snd (odooWorkflow (\<lambda>q. Inr (JObj [(''result'', JBool True)])) 7 ''acme'' (JNum 2) ''secret''
             ''contact'' ''action_confirm'' ''https://acme.example.com'' ''5''))
     = [JStr ''contact'']
   \<and> obj_get mapOdooResources ''contact'' = JStr ''res.partner''"
proof -
  have v: "\<not> invalid_id ''5''"
    by (simp add: invalid_id_def matches_digits_def is_digit_def parseInt_def)
  show ?thesis
    by (simp add: odooWorkflow_eq [OF v] model_position_rpc obj_get_def mapOdooResources_def)
qed

text \<open>
  The amended claim at \<^verbatim>\<open>odooCreate\<close> with the aliases \<^verbatim>\<open>contact\<close> and \<^verbatim>\<open>custom.model\<close>, and
  at \<^verbatim>\<open>odooGet\<close> with \<^verbatim>\<open>note\<close>.
\<close>

theorem resource_resolution_witness:
  "map model_position
     (snd (odooCreate (\<lambda>q. Inr (JObj [(''result'', JNum 11)])) 7 ''acme'' (JNum 2) ''secret''
             ''contact'' Create ''https://acme.example.com'' (JObj [(''name'', JStr ''Ada'')])))
     = [JStr ''res.partner'']
   \<and> map model_position
     (snd (odooCreate (\<lambda>q. Inr (JObj [(''result'', JNum 11)])) 7 ''acme'' (JNum 2) ''secret''
             ''custom.model'' Create ''https://acme.example.com'' (JObj [(''name'', JStr ''Ada'')])))
     = [JStr ''custom.model'']
   \<and> map model_position
     (snd (odooGet (\<lambda>q. Inr (JObj [(''result'', JNum 11)])) 7 ''acme'' (JNum 2) ''secret''
             ''note'' Get ''https://acme.example.com'' ''5'' None))
     = [JStr ''note.note'']"
proof -
  have v: "\<not> invalid_id ''5''"
    by (simp add: invalid_id_def matches_digits_def is_digit_def parseInt_def)
  have u: "''custom.model'' \<notin> set (map fst mapOdooResources)
           \<and> ''custom.model'' \<notin> set Object_prototype_keys"
    by (simp add: mapOdooResources_def Object_prototype_keys_def)
  have 1: "map model_position
     (snd (odooCreate (\<lambda>q. Inr (JObj [(''result'', JNum 11)])) 7 ''acme'' (JNum 2) ''secret''
             ''contact'' Create ''https://acme.example.com'' (JObj [(''name'', JStr ''Ada'')])))
     = [JStr ''res.partner'']"
    using resource_resolution
      [of "\<lambda>q. Inr (JObj [(''result'', JNum 11)])" 7 "''acme''" "JNum 2" "''secret''" "''contact''"
          Create "''https://acme.example.com''" "JObj [(''name'', JStr ''Ada'')]"]
    by simp
  have 2: "map model_position
     (snd (odooCreate (\<lambda>q. Inr (JObj [(''result'', JNum 11)])) 7 ''acme'' (JNum 2) ''secret''
             ''custom.model'' Create ''https://acme.example.com'' (JObj [(''name'', JStr ''Ada'')])))
     = [JStr ''custom.model'']"
    using resource_resolution
      [of "\<lambda>q. Inr (JObj [(''result'', JNum 11)])" 7 "''acme''" "JNum 2" "''secret''" "''custom.model''"
          Create "''https://acme.example.com''" "JObj [(''name'', JStr ''Ada'')]"] u
    by simp
  have 3: "map model_position
     (snd (odooGet (\<lambda>q. Inr (JObj [(''result'', JNum 11)])) 7 ''acme'' (JNum 2) ''secret''
             ''note'' Get ''https://acme.example.com'' ''5'' None))
     = [JStr ''note.note'']"
    using resource_resolution
      [of "\<lambda>q. Inr (JObj [(''result'', JNum 11)])" 7 "''acme''" "JNum 2" "''secret''" "''note''"
          Get "''https://acme.example.com''" _ _ None _ _ "''5''"] v
    by simp
  from 1 2 3 show ?thesis by blast
qed

section \<open>The field-update encoder\<close>

lemma map_of_set_prop: "map_of (set_prop k v m) = (map_of m)(k \<mapsto> v)"
  by (induction m) (auto simp: fun_eq_iff)

lemma keys_set_prop: "fst ` set (set_prop k v m) = insert k (fst ` set m)"
proof (induction m)
  case Nil
  show ?case by simp
next
  case (Cons x m)
  obtain a b where x: "x = (a, b)" by (cases x)
  show ?case
  proof (cases "k = a")
    case True
    with x show ?thesis by simp
  next
    case False
    with x Cons.IH show ?thesis by auto
  qed
qed

lemma distinct_set_prop: "distinct (map fst m) \<Longrightarrow> distinct (map fst (set_prop k v m))"
proof (induction m)
  case Nil
  show ?case by simp
next
  case (Cons x m)
  obtain a b where x: "x = (a, b)" by (cases x)
  show ?case
  proof (cases "k = a")
    case True
    with x Cons.prems show ?thesis by simp
  next
    case False
    with x Cons show ?thesis by (simp add: keys_set_prop)
  qed
qed

lemma distinct_assign_field: "distinct (map fst acc) \<Longrightarrow> distinct (map fst (assign_field acc r))"
  by (simp add: assign_field_def distinct_set_prop)

lemma distinct_reduce: "distinct (map fst acc) \<Longrightarrow> distinct (map fst (foldl assign_field acc fs))"
  by (induction fs arbitrary: acc) (simp_all add: distinct_assign_field)

lemma reduce_other:
  "\<forall>q\<in>set fs. fieldName q \<noteq> k \<Longrightarrow> map_of (foldl assign_field acc fs) k = map_of acc k"
  by (induction fs arbitrary: acc) (auto simp: assign_field_def map_of_set_prop)

lemma reduce_last:
  assumes "fs = pre @ r # post" and "\<forall>q\<in>set post. fieldName q \<noteq> fieldName r"
    and "fieldName r \<noteq> ''__proto__''"
  shows "map_of (foldl assign_field acc fs) (fieldName r) = Some (JStr (fieldValue r))"
proof -
  have "foldl assign_field acc fs = foldl assign_field (assign_field (foldl assign_field acc pre) r) post"
    using assms(1) by simp
  then have "map_of (foldl assign_field acc fs) (fieldName r)
               = map_of (assign_field (foldl assign_field acc pre) r) (fieldName r)"
    using reduce_other[OF assms(2)] by simp
  then show ?thesis
    using assms(3) by (simp add: assign_field_def map_of_set_prop)
qed

text \<open>
  Claim C8, amended. \<^verbatim>\<open>processNameValueFields\<close> gives \<^verbatim>\<open>undefined\<close> when its argument or
  the \<^verbatim>\<open>fields\<close> list of its argument is absent, and the empty object \<^verbatim>\<open>{}\<close> when the
  list is empty. For a list it gives an object, each name once, in which a field name
  other than \<^verbatim>\<open>__proto__\<close> holds the value of the last entry of that name, and which has
  no other property.
\<close>

theorem processNameValueFields_last_wins:
  "processNameValueFields None = JUndefined
   \<and> processNameValueFields (Some \<lparr>nv_fields = None\<rparr>) = JUndefined
   \<and> processNameValueFields (Some \<lparr>nv_fields = Some []\<rparr>) = JObj []
   \<and> (\<exists>m. processNameValueFields (Some \<lparr>nv_fields = Some fs\<rparr>) = JObj m
          \<and> distinct (map fst m)
          \<and> (\<forall>pre r post. fs = pre @ r # post \<and> (\<forall>q\<in>set post. fieldName q \<noteq> fieldName r)
                 \<and> fieldName r \<noteq> ''__proto__'' \<longrightarrow>
                 map_of m (fieldName r) = Some (JStr (fieldValue r)))
          \<and> (\<forall>k. (\<forall>q\<in>set fs. fieldName q \<noteq> k) \<longrightarrow> map_of m k = None))"
proof -
  have a: "processNameValueFields None = JUndefined
   \<and> processNameValueFields (Some \<lparr>nv_fields = None\<rparr>) = JUndefined
   \<and> processNameValueFields (Some \<lparr>nv_fields = Some []\<rparr>) = JObj []"
    by (simp add: processNameValueFields_def)
  let ?m = "foldl assign_field [] fs"
  have b: "processNameValueFields (Some \<lparr>nv_fields = Some fs\<rparr>) = JObj ?m"
    by (simp add: processNameValueFields_def)
  have c: "distinct (map fst ?m)"
    by (rule distinct_reduce) simp
  have d: "\<forall>pre r post. fs = pre @ r # post \<and> (\<forall>q\<in>set post. fieldName q \<noteq> fieldName r)
                 \<and> fieldName r \<noteq> ''__proto__'' \<longrightarrow>
                 map_of ?m (fieldName r) = Some (JStr (fieldValue r))"
    using reduce_last by blast
  have e: "\<forall>k. (\<forall>q\<in>set fs. fieldName q \<noteq> k) \<longrightarrow> map_of ?m k = None"
    by (simp add: reduce_other)
  from a b c d e show ?thesis by blast
qed

text \<open>
  As first stated, the claim has an absent specification give \<^verbatim>\<open>{}\<close>: it gives
  \<^verbatim>\<open>undefined\<close>, which is not the empty object.
\<close>

theorem absent_fields_undefined:
  "processNameValueFields None \<noteq> JObj []
   \<and> processNameValueFields (Some \<lparr>nv_fields = None\<rparr>) \<noteq> JObj []"
  by (simp add: processNameValueFields_def)

text \<open>The amended claim at three entries, two of them for the field \<^verbatim>\<open>name\<close>.\<close>

theorem processNameValueFields_last_wins_witness:
  "processNameValueFields
     (Some \<lparr>nv_fields = Some [\<lparr>fieldName = ''name'', fieldValue = ''Ada''\<rparr>,
                              \<lparr>fieldName = ''city'', fieldValue = ''Paris''\<rparr>,
                              \<lparr>fieldName = ''name'', fieldValue = ''Grace''\<rparr>]\<rparr>)
     = JObj [(''name'', JStr ''Grace''), (''city'', JStr ''Paris'')]
   \<and> map_of [(''name'', JStr ''Grace''), (''city'', JStr ''Paris'')] ''name'' = Some (JStr ''Grace'')
   \<and> map_of [(''name'', JStr ''Grace''), (''city'', JStr ''Paris'')] ''zip'' = None"
proof -
  let ?fs = "[\<lparr>fieldName = ''name'', fieldValue = ''Ada''\<rparr>,
              \<lparr>fieldName = ''city'', fieldValue = ''Paris''\<rparr>,
              \<lparr>fieldName = ''name'', fieldValue = ''Grace''\<rparr>]"
  have v: "processNameValueFields (Some \<lparr>nv_fields = Some ?fs\<rparr>)
             = JObj [(''name'', JStr ''Grace''), (''city'', JStr ''Paris'')]"
    by (simp add: processNameValueFields_def assign_field_def goes_before_def is_array_index_def
          matches_digits_def is_digit_def)
  obtain m where m: "processNameValueFields (Some \<lparr>nv_fields = Some ?fs\<rparr>) = JObj m"
    and last: "\<forall>pre r post. ?fs = pre @ r # post \<and> (\<forall>q\<in>set post. fieldName q \<noteq> fieldName r)
                 \<and> fieldName r \<noteq> ''__proto__'' \<longrightarrow>
                 map_of m (fieldName r) = Some (JStr (fieldValue r))"
    and none: "\<forall>k. (\<forall>q\<in>set ?fs. fieldName q \<noteq> k) \<longrightarrow> map_of m k = None"
    using processNameValueFields_last_wins [of ?fs] by blast
  from m v have eq: "m = [(''name'', JStr ''Grace''), (''city'', JStr ''Paris'')]" by simp
  have "?fs = [\<lparr>fieldName = ''name'', fieldValue = ''Ada''\<rparr>,
               \<lparr>fieldName = ''city'', fieldValue = ''Paris''\<rparr>]
              @ \<lparr>fieldName = ''name'', fieldValue = ''Grace''\<rparr> # []
          \<and> (\<forall>q\<in>set []. fieldName q \<noteq> fieldName \<lparr>fieldName = ''name'', fieldValue = ''Grace''\<rparr>)
          \<and> fieldName \<lparr>fieldName = ''name'', fieldValue = ''Grace''\<rparr> \<noteq> ''__proto__''"
    by simp
  with last have 1: "map_of m ''name'' = Some (JStr ''Grace'')"
    by (metis name_value.select_convs(1) name_value.select_convs(2))
  have "\<forall>q\<in>set ?fs. fieldName q \<noteq> ''zip''" by simp
  with none have 2: "map_of m ''zip'' = None" by blast
  from v 1 2 eq show ?thesis by simp
qed

section \<open>What the encoders do to their argument\<close>









section \<open>The addon probe never raises\<close>

lemma single_with_methods_array:
  "single_with_methods (JArr rs) = Inr True \<longleftrightarrow>
     (\<exists>kvs. rs = [JObj kvs] \<and> map_of kvs ''hasOwnProperty'' = None
            \<and> ''methods'' \<in> set (map fst kvs))"
proof (cases rs)
  case Nil
  then show ?thesis by (simp add: single_with_methods_def)
next
  case (Cons x xs)
  show ?thesis
  proof (cases xs)
    case Nil
    with Cons show ?thesis
      by (cases x) (auto simp: single_with_methods_def split: option.splits)
  next
    case (Cons y ys)
    with \<open>rs = x # xs\<close> show ?thesis by (simp add: single_with_methods_def)
  qed
qed

lemma single_with_methods_scalar:
  "(\<forall>xs. r \<noteq> JArr xs) \<Longrightarrow> (\<forall>kvs. r \<noteq> JObj kvs) \<Longrightarrow> single_with_methods r = Inr False"
  by (cases r) (auto simp: single_with_methods_def split: list.splits)

lemma addon_outcome:
  "fst (odooIsAddonInstalled hostname getCredentials send rid_login rid) =
     (case fst (addon_probe_query hostname getCredentials send rid_login rid) of
        Inl e \<Rightarrow> Inr False
      | Inr result \<Rightarrow> (case single_with_methods result of Inl e \<Rightarrow> Inr False | Inr b \<Rightarrow> Inr b))"
  by (simp add: odooIsAddonInstalled_def split: prod.splits sum.splits)

lemma addon_returns: "\<exists>b. fst (odooIsAddonInstalled hostname getCredentials send rid_login rid) = Inr b"
proof (cases "fst (addon_probe_query hostname getCredentials send rid_login rid)")
  case (Inl e)
  then have "fst (odooIsAddonInstalled hostname getCredentials send rid_login rid) = Inr False"
    by (simp add: addon_outcome)
  then show ?thesis by blast
next
  case (Inr result)
  then have "fst (odooIsAddonInstalled hostname getCredentials send rid_login rid)
               = (case single_with_methods result of Inl e \<Rightarrow> Inr False | Inr b \<Rightarrow> Inr b)"
    by (simp add: addon_outcome)
  then show ?thesis by (cases "single_with_methods result") auto
qed

lemma probe_query_login_fails:
  assumes "getCredentials = Inr c" and "odooGetDBName hostname (cred_db c) (cred_url c) = Inr db"
    and "fst (odooGetUserID send rid_login db (cred_username c) (cred_password c) (cred_url c)) = Inl e"
  shows "fst (addon_probe_query hostname getCredentials send rid_login rid) = Inl e"
proof -
  obtain r sent where rs:
    "odooGetUserID send rid_login db (cred_username c) (cred_password c) (cred_url c) = (r, sent)"
    by (cases "odooGetUserID send rid_login db (cred_username c) (cred_password c) (cred_url c)")
  with assms(3) have "r = Inl e" by simp
  with rs assms(1,2) show ?thesis by (simp add: addon_probe_query_def)
qed

lemma probe_query_result:
  assumes "getCredentials = Inr c" and "odooGetDBName hostname (cred_db c) (cred_url c) = Inr db"
    and "fst (odooGetUserID send rid_login db (cred_username c) (cred_password c) (cred_url c))
           = Inr userID"
  shows "fst (addon_probe_query hostname getCredentials send rid_login rid)
           = fst (odooJSONRPCRequest send
                    (rpc_body serviceJSONRPC methodJSONRPC
                       [JStr db, userID, JStr (cred_password c), JStr ''ir.model'',
                        JStr ''search_read'',
                        JArr [JArr [JStr ''model'', JStr ''='', JStr ''base'']], JArr []] rid)
                    (cred_url c))"
proof -
  obtain r sent where rs:
    "odooGetUserID send rid_login db (cred_username c) (cred_password c) (cred_url c) = (r, sent)"
    by (cases "odooGetUserID send rid_login db (cred_username c) (cred_password c) (cred_url c)")
  with assms(3) have "r = Inr userID" by simp
  with rs assms(1,2) show ?thesis
    by (simp add: addon_probe_query_def Let_def split: prod.splits)
qed

lemma probe_query_transport_fails:
  assumes "\<forall>q. \<exists>x. send q = Inl x"
  shows "\<exists>e. fst (addon_probe_query hostname getCredentials send rid_login rid) = Inl e"
proof (cases getCredentials)
  case (Inl e)
  then show ?thesis by (simp add: addon_probe_query_def)
next
  case (Inr c)
  show ?thesis
  proof (cases "odooGetDBName hostname (cred_db c) (cred_url c)")
    case (Inl e)
    with Inr show ?thesis by (simp add: addon_probe_query_def)
  next
    case db: (Inr db)
    obtain x where "send (rpc_options (login_body db (cred_username c) (cred_password c) rid_login)
                      (cred_url c)) = Inl x"
      using assms by blast
    then obtain x' where "fst (odooJSONRPCRequest send
                                 (login_body db (cred_username c) (cred_password c) rid_login)
                                 (cred_url c)) = Inl x'"
      using request_rejected by blast
    then have "fst (odooGetUserID send rid_login db (cred_username c) (cred_password c) (cred_url c))
                 = Inl (NodeApiError x' None)"
      by (simp add: odooGetUserID_eq)
    with Inr db show ?thesis
      using probe_query_login_fails by blast
  qed
qed

text \<open>
  Claim C4, amended. \<^verbatim>\<open>odooIsAddonInstalled\<close> never raises: its outcome is a boolean, and
  it is \<^verbatim>\<open>false\<close> whenever a step of the probe fails, be it the credentials, the database
  name, the login or the query, a transport that rejects every request included. When
  the result of the query is a JSON array, the outcome is \<^verbatim>\<open>true\<close> if and only if the
  array is one record that has a \<^verbatim>\<open>methods\<close> property, for a record that does not itself
  define \<^verbatim>\<open>hasOwnProperty\<close>; a result that is neither an array nor an object gives
  \<^verbatim>\<open>false\<close>.
\<close>

theorem odooIsAddonInstalled_probe:
  "(\<exists>b. fst (odooIsAddonInstalled hostname getCredentials send rid_login rid) = Inr b)
   \<and> (fst (addon_probe_query hostname getCredentials send rid_login rid) = Inl e \<longrightarrow>
        fst (odooIsAddonInstalled hostname getCredentials send rid_login rid) = Inr False)
   \<and> ((\<forall>q. \<exists>x. send q = Inl x) \<longrightarrow>
        fst (odooIsAddonInstalled hostname getCredentials send rid_login rid) = Inr False)
   \<and> (getCredentials = Inr c \<and> odooGetDBName hostname (cred_db c) (cred_url c) = Inr db
        \<and> fst (odooGetUserID send rid_login db (cred_username c) (cred_password c) (cred_url c))
            = Inl e \<longrightarrow>
        fst (odooIsAddonInstalled hostname getCredentials send rid_login rid) = Inr False)
   \<and> (fst (addon_probe_query hostname getCredentials send rid_login rid) = Inr (JArr rs)
        \<and> (\<forall>kvs. rs = [JObj kvs] \<longrightarrow> ''hasOwnProperty'' \<notin> set (map fst kvs)) \<longrightarrow>
        (fst (odooIsAddonInstalled hostname getCredentials send rid_login rid) = Inr True
           \<longleftrightarrow> (\<exists>kvs. rs = [JObj kvs] \<and> ''methods'' \<in> set (map fst kvs))))
   \<and> (fst (addon_probe_query hostname getCredentials send rid_login rid) = Inr r
        \<and> (\<forall>xs. r \<noteq> JArr xs) \<and> (\<forall>kvs. r \<noteq> JObj kvs) \<longrightarrow>
        fst (odooIsAddonInstalled hostname getCredentials send rid_login rid) = Inr False)"
proof -
  have a: "\<exists>b. fst (odooIsAddonInstalled hostname getCredentials send rid_login rid) = Inr b"
    by (rule addon_returns)
  have b: "fst (addon_probe_query hostname getCredentials send rid_login rid) = Inl e \<longrightarrow>
        fst (odooIsAddonInstalled hostname getCredentials send rid_login rid) = Inr False"
    by (simp add: addon_outcome)
  have c: "(\<forall>q. \<exists>x. send q = Inl x) \<longrightarrow>
        fst (odooIsAddonInstalled hostname getCredentials send rid_login rid) = Inr False"
  proof
    assume "\<forall>q. \<exists>x. send q = Inl x"
    then obtain e' where "fst (addon_probe_query hostname getCredentials send rid_login rid) = Inl e'"
      using probe_query_transport_fails by blast
    then show "fst (odooIsAddonInstalled hostname getCredentials send rid_login rid) = Inr False"
      by (simp add: addon_outcome)
  qed
  have d: "getCredentials = Inr c \<and> odooGetDBName hostname (cred_db c) (cred_url c) = Inr db
        \<and> fst (odooGetUserID send rid_login db (cred_username c) (cred_password c) (cred_url c))
            = Inl e \<longrightarrow>
        fst (odooIsAddonInstalled hostname getCredentials send rid_login rid) = Inr False"
    using probe_query_login_fails by (auto simp: addon_outcome)
  have f: "fst (addon_probe_query hostname getCredentials send rid_login rid) = Inr (JArr rs)
        \<and> (\<forall>kvs. rs = [JObj kvs] \<longrightarrow> ''hasOwnProperty'' \<notin> set (map fst kvs)) \<longrightarrow>
        (fst (odooIsAddonInstalled hostname getCredentials send rid_login rid) = Inr True
           \<longleftrightarrow> (\<exists>kvs. rs = [JObj kvs] \<and> ''methods'' \<in> set (map fst kvs)))"
  proof
    assume H: "fst (addon_probe_query hostname getCredentials send rid_login rid) = Inr (JArr rs)
        \<and> (\<forall>kvs. rs = [JObj kvs] \<longrightarrow> ''hasOwnProperty'' \<notin> set (map fst kvs))"
    then have "fst (odooIsAddonInstalled hostname getCredentials send rid_login rid) = Inr True
                 \<longleftrightarrow> single_with_methods (JArr rs) = Inr True"
      by (auto simp: addon_outcome split: sum.splits)
    also have "\<dots> \<longleftrightarrow> (\<exists>kvs. rs = [JObj kvs] \<and> map_of kvs ''hasOwnProperty'' = None
                               \<and> ''methods'' \<in> set (map fst kvs))"
      by (rule single_with_methods_array)
    also have "\<dots> \<longleftrightarrow> (\<exists>kvs. rs = [JObj kvs] \<and> ''methods'' \<in> set (map fst kvs))"
      using H by (auto simp: map_of_eq_None_iff)
    finally show "fst (odooIsAddonInstalled hostname getCredentials send rid_login rid) = Inr True
           \<longleftrightarrow> (\<exists>kvs. rs = [JObj kvs] \<and> ''methods'' \<in> set (map fst kvs))" .
  qed
  have g: "fst (addon_probe_query hostname getCredentials send rid_login rid) = Inr r
        \<and> (\<forall>xs. r \<noteq> JArr xs) \<and> (\<forall>kvs. r \<noteq> JObj kvs) \<longrightarrow>
        fst (odooIsAddonInstalled hostname getCredentials send rid_login rid) = Inr False"
    by (simp add: addon_outcome single_with_methods_scalar)
  from a b c d f g show ?thesis by blast
qed

text \<open>
  As first stated, the claim has the outcome \<^verbatim>\<open>true\<close> only for a list of one record: the
  test reads \<^verbatim>\<open>length\<close> and the member \<^verbatim>\<open>0\<close>, which an object that is no list can have.
\<close>

theorem array_like_result_probes_true:
  "fst (addon_probe_query (\<lambda>u. None)
          (Inr \<lparr>cred_url = ''https://acme.example.com'', cred_username = ''admin'',
                cred_password = ''secret'', cred_db = Some ''acme''\<rparr>)
          (\<lambda>q. if req_body q = login_body ''acme'' ''admin'' ''secret'' 1
                then Inr (JObj [(''result'', JNum 2)])
                else Inr (JObj [(''result'',
                                 JObj [(''length'', JNum 1),
                                       (''0'', JObj [(''methods'', JStr ''[]'')])])]))
          1 2)
     = Inr (JObj [(''length'', JNum 1), (''0'', JObj [(''methods'', JStr ''[]'')])])
   \<and> fst (odooIsAddonInstalled (\<lambda>u. None)
          (Inr \<lparr>cred_url = ''https://acme.example.com'', cred_username = ''admin'',
                cred_password = ''secret'', cred_db = Some ''acme''\<rparr>)
          (\<lambda>q. if req_body q = login_body ''acme'' ''admin'' ''secret'' 1
                then Inr (JObj [(''result'', JNum 2)])
                else Inr (JObj [(''result'',
                                 JObj [(''length'', JNum 1),
                                       (''0'', JObj [(''methods'', JStr ''[]'')])])]))
          1 2)
     = Inr True"
proof -
  let ?send = "\<lambda>q. if req_body q = login_body ''acme'' ''admin'' ''secret'' 1
                then Inr (JObj [(''result'', JNum 2)])
                else Inr (JObj [(''result'',
                                 JObj [(''length'', JNum 1),
                                       (''0'', JObj [(''methods'', JStr ''[]'')])])])"
  let ?c = "\<lparr>cred_url = ''https://acme.example.com'', cred_username = ''admin'',
             cred_password = ''secret'', cred_db = Some ''acme''\<rparr>"
  have db: "odooGetDBName (\<lambda>u. None) (cred_db ?c) (cred_url ?c) = Inr ''acme''"
    by (simp add: odooGetDBName_def)
  have login: "odooGetUserID ?send 1 ''acme'' ''admin'' ''secret'' ''https://acme.example.com''
                 = (Inr (JNum 2),
                    [rpc_options (login_body ''acme'' ''admin'' ''secret'' 1) ''https://acme.example.com''])"
    by (simp add: odooGetUserID_eq request_outcome rethrow_def rpc_options_def obj_get_def
          Object_prototype_keys_def)
  have differ: "rpc_body serviceJSONRPC methodJSONRPC
                  [JStr ''acme'', JNum 2, JStr ''secret'', JStr ''ir.model'', JStr ''search_read'',
                   JArr [JArr [JStr ''model'', JStr ''='', JStr ''base'']], JArr []] 2
                \<noteq> login_body ''acme'' ''admin'' ''secret'' 1"
    by (simp add: rpc_body_def login_body_def)
  have probe: "fst (odooJSONRPCRequest ?send
                  (rpc_body serviceJSONRPC methodJSONRPC
                     [JStr ''acme'', JNum 2, JStr ''secret'', JStr ''ir.model'', JStr ''search_read'',
                      JArr [JArr [JStr ''model'', JStr ''='', JStr ''base'']], JArr []] 2)
                  ''https://acme.example.com'')
               = Inr (JObj [(''length'', JNum 1), (''0'', JObj [(''methods'', JStr ''[]'')])])"
    using differ
    by (simp add: request_outcome rethrow_def rpc_options_def obj_get_def Object_prototype_keys_def)
  have q: "fst (addon_probe_query (\<lambda>u. None) (Inr ?c) ?send 1 2)
             = Inr (JObj [(''length'', JNum 1), (''0'', JObj [(''methods'', JStr ''[]'')])])"
    using probe_query_result [of "Inr ?c" ?c "\<lambda>u. None" "''acme''" ?send 1 "JNum 2" 2] db login probe
    by simp
  have s: "single_with_methods (JObj [(''length'', JNum 1), (''0'', JObj [(''methods'', JStr ''[]'')])])
             = Inr True"
    by (simp add: single_with_methods_def obj_get_def)
  from q s show ?thesis
    by (simp add: addon_outcome)
qed

text \<open>
  The amended claim at a server that answers the query with one record that has
  \<^verbatim>\<open>methods\<close>, and at a transport that refuses the connection.
\<close>

theorem odooIsAddonInstalled_probe_witness:
  "fst (odooIsAddonInstalled (\<lambda>u. None)
          (Inr \<lparr>cred_url = ''https://acme.example.com'', cred_username = ''admin'',
                cred_password = ''secret'', cred_db = Some ''acme''\<rparr>)
          (\<lambda>q. if req_body q = login_body ''acme'' ''admin'' ''secret'' 1
                then Inr (JObj [(''result'', JNum 2)])
                else Inr (JObj [(''result'',
                                 JArr [JObj [(''id'', JNum 9), (''methods'', JStr ''[]'')]])]))
          1 2)
     = Inr True
   \<and> fst (odooIsAddonInstalled (\<lambda>u. None)
          (Inr \<lparr>cred_url = ''https://acme.example.com'', cred_username = ''admin'',
                cred_password = ''secret'', cred_db = Some ''acme''\<rparr>)
          (\<lambda>q. Inl (JsError (JStr ''ECONNREFUSED''))) 1 2)
     = Inr False"
proof -
  let ?send = "\<lambda>q. if req_body q = login_body ''acme'' ''admin'' ''secret'' 1
                then Inr (JObj [(''result'', JNum 2)])
                else Inr (JObj [(''result'',
                                 JArr [JObj [(''id'', JNum 9), (''methods'', JStr ''[]'')]])])"
  let ?c = "\<lparr>cred_url = ''https://acme.example.com'', cred_username = ''admin'',
             cred_password = ''secret'', cred_db = Some ''acme''\<rparr>"
  have db: "odooGetDBName (\<lambda>u. None) (cred_db ?c) (cred_url ?c) = Inr ''acme''"
    by (simp add: odooGetDBName_def)
  have login: "odooGetUserID ?send 1 ''acme'' ''admin'' ''secret'' ''https://acme.example.com''
                 = (Inr (JNum 2),
                    [rpc_options (login_body ''acme'' ''admin'' ''secret'' 1) ''https://acme.example.com''])"
    by (simp add: odooGetUserID_eq request_outcome rethrow_def rpc_options_def obj_get_def
          Object_prototype_keys_def)
  have differ: "rpc_body serviceJSONRPC methodJSONRPC
                  [JStr ''acme'', JNum 2, JStr ''secret'', JStr ''ir.model'', JStr ''search_read'',
                   JArr [JArr [JStr ''model'', JStr ''='', JStr ''base'']], JArr []] 2
                \<noteq> login_body ''acme'' ''admin'' ''secret'' 1"
    by (simp add: rpc_body_def login_body_def)
  have probe: "fst (odooJSONRPCRequest ?send
                  (rpc_body serviceJSONRPC methodJSONRPC
                     [JStr ''acme'', JNum 2, JStr ''secret'', JStr ''ir.model'', JStr ''search_read'',
                      JArr [JArr [JStr ''model'', JStr ''='', JStr ''base'']], JArr []] 2)
                  ''https://acme.example.com'')
               = Inr (JArr [JObj [(''id'', JNum 9), (''methods'', JStr ''[]'')]])"
    using differ
    by (simp add: request_outcome rethrow_def rpc_options_def obj_get_def Object_prototype_keys_def)
  have q: "fst (addon_probe_query (\<lambda>u. None) (Inr ?c) ?send 1 2)
             = Inr (JArr [JObj [(''id'', JNum 9), (''methods'', JStr ''[]'')]])"
    using probe_query_result [of "Inr ?c" ?c "\<lambda>u. None" "''acme''" ?send 1 "JNum 2" 2] db login probe
    by simp
  have 1: "fst (odooIsAddonInstalled (\<lambda>u. None) (Inr ?c) ?send 1 2) = Inr True"
    using odooIsAddonInstalled_probe
      [of "\<lambda>u. None" "Inr ?c" ?send 1 2 _ _ _ "[JObj [(''id'', JNum 9), (''methods'', JStr ''[]'')]]"]
      q
    by simp
  have 2: "fst (odooIsAddonInstalled (\<lambda>u. None) (Inr ?c) (\<lambda>q. Inl (JsError (JStr ''ECONNREFUSED''))) 1 2)
             = Inr False"
    using odooIsAddonInstalled_probe
      [of "\<lambda>u. None" "Inr ?c" "\<lambda>q. Inl (JsError (JStr ''ECONNREFUSED''))" 1 2]
    by simp
  from 1 2 show ?thesis by blast
qed

end
